theory Spec2Isabelle
  imports Complex_Main "HOL-Library.Word"
begin

section \<open>The torrent cell renderer of the GTK client (gtk/TorrentCellRenderer.cc)\<close>

text \<open>
  The renderer draws one torrent's row of the torrent list, in a compact and in a full
  layout. This theory embeds the string builders, the size negotiation, the layout
  arithmetic and the drawing sequence of \<^verbatim>\<open>gtk/TorrentCellRenderer.cc\<close>.

  Conventions of the embedding:
  \<^item> C++ \<^verbatim>\<open>int\<close> is \<open>int\<close> with the result of the size and rectangle arithmetic
    reduced to 32 bits (\<open>int32\<close>: a signed overflow, undefined in C++, has the value
    that two's complement arithmetic gives it), \<^verbatim>\<open>uint64_t\<close> is \<open>64 word\<close>, \<^verbatim>\<open>double\<close> and
    \<^verbatim>\<open>float\<close> are \<open>real\<close> (only comparisons, a multiplication by 100 and a
    truncation are applied to them; NaN and infinities are left out);
  \<^item> a function that can abort returns \<open>error + 'a\<close>;
  \<^item> the member functions of \<^verbatim>\<open>TorrentCellRenderer::Impl\<close> take the object's state
    and return it updated, together with the drawing calls they issued, in order;
  \<^item> what the file takes from GTK, Cairo, gettext, fmt and libtransmission is a field
    of the record \<open>env\<close>, so every theorem holds for any behaviour of these libraries.
\<close>

subsection \<open>Data of libtransmission read by the renderer\<close>

text \<open>
  The enumerators of \<^verbatim>\<open>tr_torrent_activity\<close> that the file names, and one more value
  for any other content of a variable of that enum type: it is what reaches the
  \<^verbatim>\<open>default:\<close> branches.
\<close>

datatype tr_torrent_activity =
    TR_STATUS_STOPPED
  | TR_STATUS_CHECK_WAIT
  | TR_STATUS_CHECK
  | TR_STATUS_DOWNLOAD_WAIT
  | TR_STATUS_DOWNLOAD
  | TR_STATUS_SEED_WAIT
  | TR_STATUS_SEED
  | TR_STATUS_other

text \<open>
  \<^verbatim>\<open>tr_stat_errtype\<close>: the three enumerators of \<^verbatim>\<open>getErrorString\<close>, and
  \<open>TR_STAT_OK\<close>, the value 0 that \<^verbatim>\<open>st->error != 0\<close> tests for.
\<close>

datatype tr_stat_errtype =
    TR_STAT_OK
  | TR_STAT_TRACKER_WARNING
  | TR_STAT_TRACKER_ERROR
  | TR_STAT_LOCAL_ERROR

type_synonym uint64_t = "64 word"

text \<open>The fields of \<^verbatim>\<open>tr_stat\<close> that the file reads.\<close>

record tr_stat =
  activity :: tr_torrent_activity
  error :: tr_stat_errtype
  errorString :: string
  leftUntilDone :: uint64_t
  haveUnchecked :: uint64_t
  haveValid :: uint64_t
  sizeWhenDone :: uint64_t
  uploadedEver :: uint64_t
  percentDone :: real
  percentComplete :: real
  seedRatioPercentDone :: real
  metadataPercentComplete :: real
  recheckProgress :: real
  ratio :: real
  eta :: int
  peersConnected :: int
  peersSendingToUs :: int
  peersGettingFromUs :: int
  webseedsSendingToUs :: int
  isStalled :: bool
  finished :: bool

text \<open>
  Modelled from the spec: the torrent object of libtransmission is an external
  collaborator "supplying plain data structures (statistics snapshots, speed numbers)";
  its accessors \<^verbatim>\<open>tr_torrentName\<close>, \<^verbatim>\<open>tr_torrentFileCount\<close>, \<^verbatim>\<open>tr_torrentFile\<close>,
  \<^verbatim>\<open>tr_torrentHasMetadata\<close>, \<^verbatim>\<open>tr_torrentTotalSize\<close>, \<^verbatim>\<open>tr_torrentStatCached\<close> and
  \<^verbatim>\<open>tr_torrentGetSeedRatio\<close> are not in this file. A torrent is the record of what
  they return; \<open>seedRatio\<close> is \<open>Some r\<close> when \<^verbatim>\<open>tr_torrentGetSeedRatio\<close> returns
  true and stores \<open>r\<close>.
\<close>

record tr_torrent =
  name :: string
  files :: "string list"
  hasMetadata :: bool
  totalSize :: uint64_t
  statCached :: tr_stat
  seedRatio :: "real option"

definition tr_torrentName :: "tr_torrent \<Rightarrow> string" where
  "tr_torrentName tor = name tor"

definition tr_torrentFileCount :: "tr_torrent \<Rightarrow> nat" where
  "tr_torrentFileCount tor = length (files tor)"

definition tr_torrentHasMetadata :: "tr_torrent \<Rightarrow> bool" where
  "tr_torrentHasMetadata tor = hasMetadata tor"

definition tr_torrentTotalSize :: "tr_torrent \<Rightarrow> uint64_t" where
  "tr_torrentTotalSize tor = totalSize tor"

definition tr_torrentStatCached :: "tr_torrent \<Rightarrow> tr_stat" where
  "tr_torrentStatCached tor = statCached tor"

definition tr_torrentGetSeedRatio :: "tr_torrent \<Rightarrow> real option" where
  "tr_torrentGetSeedRatio tor = seedRatio tor"

subsection \<open>Values of the toolkit\<close>

datatype fmt_value = fmt_str string | fmt_int int | fmt_double real

text \<open>An argument of \<^verbatim>\<open>fmt::format\<close>: \<^verbatim>\<open>fmt::arg(name, value)\<close>, or a positional one.\<close>

datatype fmt_arg = arg string fmt_value | positional fmt_value

datatype cell_renderer_state =
  SELECTED | PRELIT | INSENSITIVE | SORTED | FOCUSED | EXPANDABLE | EXPANDED

datatype gtk_state_flag = DIR_LTR | DIR_RTL | STATE_FLAG_other nat

datatype pango_ellipsize_mode = ELLIPSIZE_NONE | ELLIPSIZE_START | ELLIPSIZE_MIDDLE | ELLIPSIZE_END

datatype pango_weight = WEIGHT_NORMAL | WEIGHT_BOLD

datatype icon_size = ICON_SIZE_MENU | ICON_SIZE_DND | IconSize_NORMAL | IconSize_LARGE

datatype gdk_rgba = RGBA string

record gdk_rectangle =
  rect_x :: int
  rect_y :: int
  rect_width :: int
  rect_height :: int

record requisition =
  req_width :: int
  req_height :: int

text \<open>The widget of the host view, as far as the renderer looks at it: its state flags.\<close>

record gtk_widget =
  widget_state :: "gtk_state_flag set"

text \<open>The properties of the three child renderers that the file sets.\<close>

record text_props =
  text_text :: string
  text_ellipsize :: pango_ellipsize_mode
  text_scale :: real
  text_weight :: pango_weight
  text_foreground :: string
  text_foreground_set :: bool

record progress_props =
  progress_value :: int
  progress_text :: string
  progress_sensitive :: bool

record pixbuf_props =
  pixbuf_gicon :: string
  pixbuf_icon_size :: icon_size
  pixbuf_sensitive :: bool

text \<open>
  \<^verbatim>\<open>SnapshotPtr\<close> is a Cairo context under GTK 3 and a \<^verbatim>\<open>Gtk::Snapshot\<close> under GTK 4;
  the number tells one from another.
\<close>

datatype SnapshotPtr = SnapshotPtr nat

datatype cairo_format = FORMAT_ARGB32 | FORMAT_A8

datatype cairo_operator = OPERATOR_CLEAR | OPERATOR_DEST_OVER | OPERATOR_HSL_COLOR

text \<open>
  The Cairo contexts and surfaces of \<^verbatim>\<open>render_progress_bar\<close>, by the names of its
  variables. The output context is the snapshot itself (GTK 3) or the Cairo node
  appended to it for an area (GTK 4).
\<close>

datatype cairo_context =
    Temp_context
  | Mask_context
  | Snapshot_context SnapshotPtr
  | Appended_context SnapshotPtr gdk_rectangle

subsection \<open>The libraries the file calls\<close>

text \<open>
  What the file uses and does not define, as parameters:
  \<^item> \<open>gtkmm4\<close>: whether \<^verbatim>\<open>GTKMM_CHECK_VERSION(4, 0, 0)\<close> holds (\<^verbatim>\<open>IF_GTKMM4\<close> picks its first
    argument then);
  \<^item> \<open>GUI_PAD\<close>, \<open>GUI_PAD_SMALL\<close> of \<^verbatim>\<open>HigWorkarea.h\<close>, \<open>UnknownMimeType\<close>,
    \<open>DirectoryMimeType\<close> and \<open>gtr_get_mime_type_icon\<close> of \<^verbatim>\<open>Utils.h\<close> and
    \<^verbatim>\<open>IconCache.h\<close> (an icon is named by the string returned);
  \<^item> \<open>gettext\<close> (the macro \<^verbatim>\<open>_\<close>), \<open>ngettext\<close> and \<open>fmt_format\<close> (\<^verbatim>\<open>fmt::format\<close>);
  \<^item> the formatting helpers \<open>tr_strlsize\<close>, \<open>tr_strpercent\<close>, \<open>tr_strlratio\<close>,
    \<open>tr_format_time_left\<close>, \<open>tr_formatter_speed_KBps\<close>, \<open>tr_truncd\<close> and
    \<open>tr_get_mime_type_for_filename\<close>;
  \<^item> the answers of the child renderers to \<^verbatim>\<open>get_preferred_size\<close> and
    \<^verbatim>\<open>get_preferred_width\<close>, as (minimum, natural), for the properties they have when asked;
  \<^item> \<open>get_state\<close> (\<^verbatim>\<open>Gtk::CellRenderer::get_state\<close>), the components of a colour, and
    \<open>device_to_user\<close> of a Cairo context.
\<close>

record env =
  gtkmm4 :: bool
  GUI_PAD :: int
  GUI_PAD_SMALL :: int
  gettext :: "string \<Rightarrow> string"
  ngettext :: "string \<Rightarrow> string \<Rightarrow> int \<Rightarrow> string"
  fmt_format :: "string \<Rightarrow> fmt_arg list \<Rightarrow> string"
  tr_strlsize :: "uint64_t \<Rightarrow> string"
  tr_strpercent :: "real \<Rightarrow> string"
  tr_strlratio :: "real \<Rightarrow> string"
  tr_format_time_left :: "int \<Rightarrow> string"
  tr_formatter_speed_KBps :: "real \<Rightarrow> string"
  tr_truncd :: "real \<Rightarrow> int \<Rightarrow> real"
  UnknownMimeType :: string
  DirectoryMimeType :: string
  tr_get_mime_type_for_filename :: "string \<Rightarrow> string"
  gtr_get_mime_type_icon :: "string \<Rightarrow> string"
  icon_get_preferred_size :: "pixbuf_props \<Rightarrow> gtk_widget \<Rightarrow> requisition \<times> requisition"
  icon_get_preferred_width :: "pixbuf_props \<Rightarrow> gtk_widget \<Rightarrow> int \<times> int"
  text_get_preferred_size :: "text_props \<Rightarrow> gtk_widget \<Rightarrow> requisition \<times> requisition"
  text_get_preferred_width :: "text_props \<Rightarrow> gtk_widget \<Rightarrow> int \<times> int"
  get_state :: "gtk_widget \<Rightarrow> cell_renderer_state set \<Rightarrow> gtk_state_flag set"
  get_red :: "gdk_rgba \<Rightarrow> real"
  get_green :: "gdk_rgba \<Rightarrow> real"
  get_blue :: "gdk_rgba \<Rightarrow> real"
  device_to_user :: "cairo_context \<Rightarrow> real \<times> real \<Rightarrow> real \<times> real"

datatype error = AssertNotReached | NullPointerDereference

definition CompactBarWidth :: int where
  "CompactBarWidth = 50"

definition SmallScale :: real where
  "SmallScale = 0.9"

definition CompactIconSize :: "env \<Rightarrow> icon_size" where
  "CompactIconSize e = (if gtkmm4 e then IconSize_NORMAL else ICON_SIZE_MENU)"

definition FullIconSize :: "env \<Rightarrow> icon_size" where
  "FullIconSize e = (if gtkmm4 e then IconSize_LARGE else ICON_SIZE_DND)"

definition REQ_WIDTH :: "requisition \<Rightarrow> int" where
  "REQ_WIDTH Obj = req_width Obj"

definition REQ_HEIGHT :: "requisition \<Rightarrow> int" where
  "REQ_HEIGHT Obj = req_height Obj"

subsection \<open>The string builders\<close>

text \<open>
  \<^verbatim>\<open>getProgressString\<close>: \<open>gstr\<close> starts empty, one of five messages is appended, then
  the time left where it applies. The variable \<^verbatim>\<open>seedRatio\<close> is not written when the
  torrent has no seed ratio; it is read only where \<open>hasSeedRatio\<close> holds, and is 0 here
  otherwise.
\<close>

definition getProgressString :: "env \<Rightarrow> tr_torrent \<Rightarrow> uint64_t \<Rightarrow> tr_stat \<Rightarrow> string" where
  "getProgressString e tor total_size st =
    (let gstr = [];
         isDone = (leftUntilDone st = 0);
         haveTotal = haveUnchecked st + haveValid st;
         isSeed = (haveValid st \<ge> total_size);
         hasSeedRatio = (tr_torrentGetSeedRatio tor \<noteq> None);
         seedRatio = (case tr_torrentGetSeedRatio tor of Some r \<Rightarrow> r | None \<Rightarrow> 0);
         gstr =
          (if \<not> isDone then
             gstr @ fmt_format e (gettext e ''{current_size} of {complete_size} ({percent_done}%)'')
               [arg ''current_size'' (fmt_str (tr_strlsize e haveTotal)),
                arg ''complete_size'' (fmt_str (tr_strlsize e (sizeWhenDone st))),
                arg ''percent_done'' (fmt_str (tr_strpercent e (percentDone st * 100)))]
           else if \<not> isSeed \<and> hasSeedRatio then
             gstr @ fmt_format e (gettext e
                 ''{current_size} of {complete_size} ({percent_complete}%), uploaded {uploaded_size} (Ratio: {ratio}, Goal: {seed_ratio})'')
               [arg ''current_size'' (fmt_str (tr_strlsize e haveTotal)),
                arg ''complete_size'' (fmt_str (tr_strlsize e total_size)),
                arg ''percent_complete'' (fmt_str (tr_strpercent e (percentComplete st * 100))),
                arg ''uploaded_size'' (fmt_str (tr_strlsize e (uploadedEver st))),
                arg ''ratio'' (fmt_str (tr_strlratio e (ratio st))),
                arg ''seed_ratio'' (fmt_str (tr_strlratio e seedRatio))]
           else if \<not> isSeed then
             gstr @ fmt_format e (gettext e
                 ''{current_size} of {complete_size} ({percent_complete}%), uploaded {uploaded_size} (Ratio: {ratio})'')
               [arg ''current_size'' (fmt_str (tr_strlsize e haveTotal)),
                arg ''complete_size'' (fmt_str (tr_strlsize e total_size)),
                arg ''percent_complete'' (fmt_str (tr_strpercent e (percentComplete st * 100))),
                arg ''uploaded_size'' (fmt_str (tr_strlsize e (uploadedEver st))),
                arg ''ratio'' (fmt_str (tr_strlratio e (ratio st)))]
           else if hasSeedRatio then
             gstr @ fmt_format e (gettext e
                 ''{complete_size}, uploaded {uploaded_size} (Ratio: {ratio}, Goal: {seed_ratio})'')
               [arg ''complete_size'' (fmt_str (tr_strlsize e total_size)),
                arg ''uploaded_size'' (fmt_str (tr_strlsize e (uploadedEver st))),
                arg ''ratio'' (fmt_str (tr_strlratio e (ratio st))),
                arg ''seed_ratio'' (fmt_str (tr_strlratio e seedRatio))]
           else
             gstr @ fmt_format e (gettext e ''{complete_size}, uploaded {uploaded_size} (Ratio: {ratio})'')
               [arg ''complete_size'' (fmt_str (tr_strlsize e total_size)),
                arg ''uploaded_size'' (fmt_str (tr_strlsize e (uploadedEver st))),
                arg ''ratio'' (fmt_str (tr_strlratio e (ratio st)))])
     in
       if activity st = TR_STATUS_DOWNLOAD \<or> (hasSeedRatio \<and> activity st = TR_STATUS_SEED) then
         (let gstr = gstr @ '' - '' in
            if eta st < 0 then gstr @ gettext e ''Remaining time unknown''
            else gstr @ tr_format_time_left e (eta st))
       else gstr)"

text \<open>
  \<^verbatim>\<open>getShortTransferString\<close>. The two arrows of the first message are the UTF-8 bytes
  of U+25BC and U+25B2.
\<close>

definition down_arrow :: string where
  "down_arrow = [CHR 0xE2, CHR 0x96, CHR 0xBC]"

definition up_arrow :: string where
  "up_arrow = [CHR 0xE2, CHR 0x96, CHR 0xB2]"

definition apostrophe :: string where
  "apostrophe = [CHR 0x27]"

definition getShortTransferString :: "env \<Rightarrow> tr_torrent \<Rightarrow> tr_stat \<Rightarrow> real \<Rightarrow> real \<Rightarrow> string" where
  "getShortTransferString e tor st uploadSpeed_KBps downloadSpeed_KBps =
    (let have_meta = tr_torrentHasMetadata tor;
         have_down = (have_meta \<and> (peersSendingToUs st > 0 \<or> webseedsSendingToUs st > 0))
     in
       if have_down then
         fmt_format e (gettext e (''{download_speed} '' @ down_arrow @ ''  {upload_speed} '' @ up_arrow))
           [arg ''upload_speed'' (fmt_str (tr_formatter_speed_KBps e uploadSpeed_KBps)),
            arg ''download_speed'' (fmt_str (tr_formatter_speed_KBps e downloadSpeed_KBps))]
       else
         (let have_up = (have_meta \<and> peersGettingFromUs st > 0) in
            if have_up then
              fmt_format e (gettext e (''{upload_speed} '' @ up_arrow))
                [arg ''upload_speed'' (fmt_str (tr_formatter_speed_KBps e uploadSpeed_KBps))]
            else if isStalled st then gettext e ''Stalled''
            else []))"

definition getShortStatusString :: "env \<Rightarrow> tr_torrent \<Rightarrow> tr_stat \<Rightarrow> real \<Rightarrow> real \<Rightarrow> string" where
  "getShortStatusString e tor st uploadSpeed_KBps downloadSpeed_KBps =
    (case activity st of
       TR_STATUS_STOPPED \<Rightarrow> (if finished st then gettext e ''Finished'' else gettext e ''Paused'')
     | TR_STATUS_CHECK_WAIT \<Rightarrow> gettext e ''Queued for verification''
     | TR_STATUS_DOWNLOAD_WAIT \<Rightarrow> gettext e ''Queued for download''
     | TR_STATUS_SEED_WAIT \<Rightarrow> gettext e ''Queued for seeding''
     | TR_STATUS_CHECK \<Rightarrow>
         fmt_format e (gettext e ''Verifying local data ({percent_done}% tested)'')
           [arg ''percent_done'' (fmt_double (tr_truncd e (recheckProgress st * 100) 1))]
     | TR_STATUS_DOWNLOAD \<Rightarrow>
         fmt_format e ''{:s} {:s}''
           [positional (fmt_str (getShortTransferString e tor st uploadSpeed_KBps downloadSpeed_KBps)),
            positional (fmt_str (fmt_format e (gettext e ''Ratio: {ratio}'')
              [arg ''ratio'' (fmt_str (tr_strlratio e (ratio st)))]))]
     | TR_STATUS_SEED \<Rightarrow>
         fmt_format e ''{:s} {:s}''
           [positional (fmt_str (getShortTransferString e tor st uploadSpeed_KBps downloadSpeed_KBps)),
            positional (fmt_str (fmt_format e (gettext e ''Ratio: {ratio}'')
              [arg ''ratio'' (fmt_str (tr_strlratio e (ratio st)))]))]
     | TR_STATUS_other \<Rightarrow> [])"

definition getErrorString :: "env \<Rightarrow> tr_stat \<Rightarrow> string option" where
  "getErrorString e st =
    (case error st of
       TR_STAT_TRACKER_WARNING \<Rightarrow>
         Some (fmt_format e (gettext e (''Tracker warning: '' @ apostrophe @ ''{warning}'' @ apostrophe))
           [arg ''warning'' (fmt_str (errorString st))])
     | TR_STAT_TRACKER_ERROR \<Rightarrow>
         Some (fmt_format e (gettext e (''Tracker Error: '' @ apostrophe @ ''{error}'' @ apostrophe))
           [arg ''error'' (fmt_str (errorString st))])
     | TR_STAT_LOCAL_ERROR \<Rightarrow>
         Some (fmt_format e (gettext e (''Local error: '' @ apostrophe @ ''{error}'' @ apostrophe))
           [arg ''error'' (fmt_str (errorString st))])
     | TR_STAT_OK \<Rightarrow> None)"

text \<open>
  \<^verbatim>\<open>getActivityString\<close>. Its \<^verbatim>\<open>default:\<close> branch is \<^verbatim>\<open>g_assert_not_reached()\<close>,
  which aborts the program.
\<close>

definition getActivityString :: "env \<Rightarrow> tr_torrent \<Rightarrow> tr_stat \<Rightarrow> real \<Rightarrow> real \<Rightarrow> error + string" where
  "getActivityString e tor st uploadSpeed_KBps downloadSpeed_KBps =
    (case activity st of
       TR_STATUS_STOPPED \<Rightarrow> Inr (getShortStatusString e tor st uploadSpeed_KBps downloadSpeed_KBps)
     | TR_STATUS_CHECK_WAIT \<Rightarrow> Inr (getShortStatusString e tor st uploadSpeed_KBps downloadSpeed_KBps)
     | TR_STATUS_CHECK \<Rightarrow> Inr (getShortStatusString e tor st uploadSpeed_KBps downloadSpeed_KBps)
     | TR_STATUS_DOWNLOAD_WAIT \<Rightarrow> Inr (getShortStatusString e tor st uploadSpeed_KBps downloadSpeed_KBps)
     | TR_STATUS_SEED_WAIT \<Rightarrow> Inr (getShortStatusString e tor st uploadSpeed_KBps downloadSpeed_KBps)
     | TR_STATUS_DOWNLOAD \<Rightarrow>
         (if \<not> tr_torrentHasMetadata tor then
            Inr (fmt_format e
              (ngettext e
                 ''Downloading metadata from {active_count} connected peer ({percent_done}% done)''
                 ''Downloading metadata from {active_count} connected peers ({percent_done}% done)''
                 (peersConnected st))
              [arg ''active_count'' (fmt_int (peersConnected st)),
               arg ''percent_done'' (fmt_str (tr_strpercent e (metadataPercentComplete st * 100)))])
          else if peersSendingToUs st \<noteq> 0 \<and> webseedsSendingToUs st \<noteq> 0 then
            Inr (fmt_format e
              (ngettext e
                 ''Downloading from {active_count} of {connected_count} connected peer and webseed''
                 ''Downloading from {active_count} of {connected_count} connected peers and webseeds''
                 (peersConnected st + webseedsSendingToUs st))
              [arg ''active_count'' (fmt_int (peersSendingToUs st + webseedsSendingToUs st)),
               arg ''connected_count'' (fmt_int (peersConnected st + webseedsSendingToUs st))])
          else if webseedsSendingToUs st \<noteq> 0 then
            Inr (fmt_format e
              (ngettext e
                 ''Downloading from {active_count} webseed''
                 ''Downloading from {active_count} webseeds''
                 (webseedsSendingToUs st))
              [arg ''active_count'' (fmt_int (webseedsSendingToUs st))])
          else
            Inr (fmt_format e
              (ngettext e
                 ''Downloading from {active_count} of {connected_count} connected peer''
                 ''Downloading from {active_count} of {connected_count} connected peers''
                 (peersConnected st))
              [arg ''active_count'' (fmt_int (peersSendingToUs st)),
               arg ''connected_count'' (fmt_int (peersConnected st))]))
     | TR_STATUS_SEED \<Rightarrow>
         Inr (fmt_format e
           (ngettext e
              ''Seeding to {active_count} of {connected_count} connected peer''
              ''Seeding to {active_count} of {connected_count} connected peers''
              (peersConnected st))
           [arg ''active_count'' (fmt_int (peersGettingFromUs st)),
            arg ''connected_count'' (fmt_int (peersConnected st))])
     | TR_STATUS_other \<Rightarrow> Inl AssertNotReached)"

text \<open>
  \<^verbatim>\<open>getStatusString\<close>. The argument of \<^verbatim>\<open>value_or\<close> is evaluated before the call, so
  \<^verbatim>\<open>getActivityString\<close> runs (and can abort) also when the error string is used.
\<close>

definition getStatusString ::
  "env \<Rightarrow> tr_torrent \<Rightarrow> tr_stat \<Rightarrow> real \<Rightarrow> real \<Rightarrow> bool \<Rightarrow> error + string" where
  "getStatusString e tor st uploadSpeed_KBps downloadSpeed_KBps ignore_errors =
    (case getActivityString e tor st uploadSpeed_KBps downloadSpeed_KBps of
       Inl err \<Rightarrow> Inl err
     | Inr activity_str \<Rightarrow>
         (let status_str =
                (case (if ignore_errors then None else getErrorString e st) of
                   Some error_str \<Rightarrow> error_str
                 | None \<Rightarrow> activity_str)
          in
            if activity st \<noteq> TR_STATUS_CHECK_WAIT \<and> activity st \<noteq> TR_STATUS_CHECK \<and>
               activity st \<noteq> TR_STATUS_DOWNLOAD_WAIT \<and> activity st \<noteq> TR_STATUS_SEED_WAIT \<and>
               activity st \<noteq> TR_STATUS_STOPPED
            then
              (let buf = getShortTransferString e tor st uploadSpeed_KBps downloadSpeed_KBps in
                 if buf \<noteq> [] then
                   Inr (status_str @ fmt_format e '' - {:s}'' [positional (fmt_str buf)])
                 else Inr status_str)
            else Inr status_str))"

subsection \<open>Icon, percentage and colour\<close>

definition get_icon :: "env \<Rightarrow> tr_torrent \<Rightarrow> string" where
  "get_icon e tor =
    (let n_files = tr_torrentFileCount tor;
         mime_type =
           (if n_files = 0 then UnknownMimeType e
            else if n_files > 1 then DirectoryMimeType e
            else
              (case files tor of
                 file_name # _ \<Rightarrow>
                   (if CHR ''/'' \<in> set file_name then DirectoryMimeType e
                    else tr_get_mime_type_for_filename e file_name)
               | [] \<Rightarrow> UnknownMimeType e))
     in gtr_get_mime_type_icon e mime_type)"

text \<open>
  \<open>MAX_macro\<close> is the macro \<^verbatim>\<open>MAX\<close> of GLib, \<^verbatim>\<open>(((a) > (b)) ? (a) : (b))\<close>.
  \<^verbatim>\<open>get_percent_done\<close> returns the value and what it stores in \<^verbatim>\<open>*seed\<close>.
\<close>

definition MAX_macro :: "real \<Rightarrow> real \<Rightarrow> real" where
  "MAX_macro a b = (if a > b then a else b)"

definition get_percent_done :: "tr_torrent \<Rightarrow> tr_stat \<Rightarrow> real \<times> bool" where
  "get_percent_done tor st =
    (if activity st = TR_STATUS_SEED \<and> tr_torrentGetSeedRatio tor \<noteq> None then
       (MAX_macro 0 (seedRatioPercentDone st), True)
     else (MAX_macro 0 (percentDone st), False))"

definition get_progress_bar_color :: "tr_stat \<Rightarrow> gdk_rgba" where
  "get_progress_bar_color st =
    (if activity st = TR_STATUS_DOWNLOAD then RGBA ''steelblue''
     else (if activity st = TR_STATUS_SEED then RGBA ''forestgreen'' else RGBA ''silver''))"

subsection \<open>The renderer object and what it draws\<close>

text \<open>
  The state of \<^verbatim>\<open>TorrentCellRenderer::Impl\<close>: its five properties, the padding of the
  renderer it belongs to (read by \<^verbatim>\<open>renderer_.get_padding\<close>), and the properties of
  the three child renderers it owns. A null \<^verbatim>\<open>torrent\<close> pointer is \<open>None\<close>.
\<close>

record Impl =
  torrent :: "tr_torrent option"
  bar_height :: int
  upload_speed_KBps :: real
  download_speed_KBps :: real
  compact :: bool
  renderer_xpad :: int
  renderer_ypad :: int
  text_renderer :: text_props
  progress_renderer :: progress_props
  icon_renderer :: pixbuf_props

datatype cairo_surface =
    Temp_surface
  | Mask_surface
  | Target_of cairo_context
  | Sub_surface cairo_surface int int int int

datatype render_target = To_snapshot SnapshotPtr | To_temp_context | To_temp_snapshot

text \<open>The calls into Cairo and into the child renderers that draw or allocate.\<close>

datatype gfx_call =
    ImageSurface_create cairo_surface cairo_format int int
  | Context_create cairo_context cairo_surface
  | Snapshot_create
  | Snapshot_free_to_node_draw cairo_context
  | Snapshot_append_cairo SnapshotPtr gdk_rectangle
  | Cairo_set_source_rgb cairo_context real real real
  | Cairo_set_source cairo_context cairo_surface real real
  | Cairo_set_operator cairo_context cairo_operator
  | Cairo_rectangle cairo_context real real real real
  | Cairo_fill cairo_context
  | Cairo_mask cairo_context cairo_surface real real
  | Render_icon pixbuf_props render_target gtk_widget gdk_rectangle gdk_rectangle "cell_renderer_state set"
  | Render_text text_props render_target gtk_widget gdk_rectangle gdk_rectangle "cell_renderer_state set"
  | Render_progress progress_props render_target gtk_widget gdk_rectangle gdk_rectangle "cell_renderer_state set"

definition get_target :: "cairo_context \<Rightarrow> cairo_surface" where
  "get_target c = (case c of Temp_context \<Rightarrow> Temp_surface | Mask_context \<Rightarrow> Mask_surface | _ \<Rightarrow> Target_of c)"

text \<open>
  The arithmetic of the sizes and rectangles is on C++ \<^verbatim>\<open>int\<close>, of 32 bits. \<open>int32\<close>
  is the value that a result has in such a variable: the result modulo \<open>2 ^ 32\<close>, in the
  range from \<open>- 2 ^ 31\<close> to \<open>2 ^ 31 - 1\<close>. It is applied to every expression of sums,
  differences and products that the file computes on \<^verbatim>\<open>int\<close>; reducing once at the end
  of such an expression gives the same value as reducing after each operation
  (\<open>int32_arith\<close> below). The operand of the one division is reduced before it, and
  the operands of \<^verbatim>\<open>std::max\<close> are variables, not results of arithmetic.
\<close>

definition int32 :: "int \<Rightarrow> int" where
  "int32 x = (x + 2147483648) mod 4294967296 - 2147483648"

definition int_range :: "int \<Rightarrow> bool" where
  "int_range x = (- 2147483648 \<le> x \<and> x \<le> 2147483647)"

text \<open>\<^verbatim>\<open>static_cast<int>\<close> of a \<^verbatim>\<open>double\<close> drops the fraction; \<^verbatim>\<open>/\<close> on \<^verbatim>\<open>int\<close> truncates too.\<close>

definition static_cast_int :: "real \<Rightarrow> int" where
  "static_cast_int d = (if d \<ge> 0 then \<lfloor>d\<rfloor> else \<lceil>d\<rceil>)"

definition int_div :: "int \<Rightarrow> int \<Rightarrow> int" where
  "int_div a b = sgn a * sgn b * (\<bar>a\<bar> div \<bar>b\<bar>)"

definition Rectangle :: gdk_rectangle where
  "Rectangle = \<lparr>rect_x = 0, rect_y = 0, rect_width = 0, rect_height = 0\<rparr>"

definition set_icon :: "pixbuf_props \<Rightarrow> string \<Rightarrow> icon_size \<Rightarrow> pixbuf_props" where
  "set_icon renderer icon icon_size = renderer\<lparr>pixbuf_gicon := icon, pixbuf_icon_size := icon_size\<rparr>"

subsection \<open>Size negotiation\<close>

text \<open>
  \<^verbatim>\<open>get_size_compact\<close> and \<^verbatim>\<open>get_size_full\<close> return the object (they write the
  properties of the child renderers) and the width and height they store. They read
  the statistics of the torrent without a check of the pointer.
\<close>

definition get_size_compact :: "env \<Rightarrow> Impl \<Rightarrow> gtk_widget \<Rightarrow> error + (Impl \<times> int \<times> int)" where
  "get_size_compact e impl widget =
    (case torrent impl of
       None \<Rightarrow> Inl NullPointerDereference
     | Some tor \<Rightarrow>
        (let st = tr_torrentStatCached tor;
             icon = get_icon e tor;
             name = tr_torrentName tor;
             gstr_stat = getShortStatusString e tor st (upload_speed_KBps impl) (download_speed_KBps impl);
             xpad = renderer_xpad impl;
             ypad = renderer_ypad impl;
             icon_r = set_icon (icon_renderer impl) icon (CompactIconSize e);
             icon_size = snd (icon_get_preferred_size e icon_r widget);
             text_r = (text_renderer impl)\<lparr>text_text := name, text_ellipsize := ELLIPSIZE_NONE, text_scale := 1\<rparr>;
             name_size = snd (text_get_preferred_size e text_r widget);
             text_r = text_r\<lparr>text_text := gstr_stat, text_scale := SmallScale\<rparr>;
             stat_size = snd (text_get_preferred_size e text_r widget);
             width = int32 (xpad * 2 + REQ_WIDTH icon_size + GUI_PAD e + CompactBarWidth + GUI_PAD e +
               REQ_WIDTH stat_size);
             height = int32 (ypad * 2 + max (REQ_HEIGHT name_size) (bar_height impl))
         in Inr (impl\<lparr>text_renderer := text_r, icon_renderer := icon_r\<rparr>, width, height)))"

definition get_size_full :: "env \<Rightarrow> Impl \<Rightarrow> gtk_widget \<Rightarrow> error + (Impl \<times> int \<times> int)" where
  "get_size_full e impl widget =
    (case torrent impl of
       None \<Rightarrow> Inl NullPointerDereference
     | Some tor \<Rightarrow>
        (let st = tr_torrentStatCached tor;
             total_size = tr_torrentTotalSize tor;
             icon = get_icon e tor;
             name = tr_torrentName tor
         in
           case getStatusString e tor st (upload_speed_KBps impl) (download_speed_KBps impl) True of
             Inl err \<Rightarrow> Inl err
           | Inr gstr_stat \<Rightarrow>
              (let gstr_prog = getProgressString e tor total_size st;
                   xpad = renderer_xpad impl;
                   ypad = renderer_ypad impl;
                   icon_r = set_icon (icon_renderer impl) icon (FullIconSize e);
                   icon_size = snd (icon_get_preferred_size e icon_r widget);
                   text_r = (text_renderer impl)\<lparr>text_text := name, text_weight := WEIGHT_BOLD,
                      text_scale := 1, text_ellipsize := ELLIPSIZE_NONE\<rparr>;
                   name_size = snd (text_get_preferred_size e text_r widget);
                   text_r = text_r\<lparr>text_text := gstr_prog, text_weight := WEIGHT_NORMAL,
                      text_scale := SmallScale\<rparr>;
                   prog_size = snd (text_get_preferred_size e text_r widget);
                   text_r = text_r\<lparr>text_text := gstr_stat\<rparr>;
                   stat_size = snd (text_get_preferred_size e text_r widget);
                   width = int32 (xpad * 2 + REQ_WIDTH icon_size + GUI_PAD e +
                     max (REQ_WIDTH prog_size) (REQ_WIDTH stat_size));
                   height = int32 (ypad * 2 + REQ_HEIGHT name_size + REQ_HEIGHT prog_size + GUI_PAD_SMALL e +
                     bar_height impl + GUI_PAD_SMALL e + REQ_HEIGHT stat_size)
               in Inr (impl\<lparr>text_renderer := text_r, icon_renderer := icon_r\<rparr>, width, height))))"

text \<open>
  The two virtual functions of the size negotiation take the values that the caller's
  \<^verbatim>\<open>minimum\<close> and \<^verbatim>\<open>natural\<close> variables hold and return what they hold afterwards.
\<close>

definition get_preferred_width_vfunc ::
  "env \<Rightarrow> Impl \<Rightarrow> gtk_widget \<Rightarrow> int \<times> int \<Rightarrow> error + (Impl \<times> int \<times> int)" where
  "get_preferred_width_vfunc e impl widget out =
    (case out of (minimum_width, natural_width) \<Rightarrow>
      if torrent impl \<noteq> None then
        (case (if compact impl then get_size_compact e impl widget else get_size_full e impl widget) of
           Inl err \<Rightarrow> Inl err
         | Inr (impl', w, h) \<Rightarrow> Inr (impl', w, w))
      else Inr (impl, minimum_width, natural_width))"

definition get_preferred_height_vfunc ::
  "env \<Rightarrow> Impl \<Rightarrow> gtk_widget \<Rightarrow> int \<times> int \<Rightarrow> error + (Impl \<times> int \<times> int)" where
  "get_preferred_height_vfunc e impl widget out =
    (case out of (minimum_height, natural_height) \<Rightarrow>
      if torrent impl \<noteq> None then
        (case (if compact impl then get_size_compact e impl widget else get_size_full e impl widget) of
           Inl err \<Rightarrow> Inl err
         | Inr (impl', w, h) \<Rightarrow> Inr (impl', h, h))
      else Inr (impl, minimum_height, natural_height))"

subsection \<open>The progress bar\<close>

text \<open>\<^verbatim>\<open>get_mask_surface\<close> returns the mask surface and the calls that made it.\<close>

definition get_mask_surface :: "cairo_surface \<Rightarrow> gdk_rectangle \<Rightarrow> cairo_surface \<times> gfx_call list" where
  "get_mask_surface surface area =
    (Mask_surface,
     [ImageSurface_create Mask_surface FORMAT_A8 (rect_width area) (rect_height area),
      Context_create Mask_context Mask_surface,
      Cairo_set_source_rgb Mask_context 0 0 0,
      Cairo_rectangle Mask_context (real_of_int (rect_x area)) (real_of_int (rect_y area))
        (real_of_int (rect_width area)) (real_of_int (rect_height area)),
      Cairo_fill Mask_context,
      Cairo_set_operator Mask_context OPERATOR_CLEAR,
      Cairo_mask Mask_context surface (real_of_int (rect_x area)) (real_of_int (rect_y area)),
      Cairo_fill Mask_context])"

definition adjust_progress_bar_hue ::
  "env \<Rightarrow> cairo_surface \<Rightarrow> cairo_context \<Rightarrow> gdk_rgba \<Rightarrow> gdk_rectangle \<Rightarrow> real \<Rightarrow> real \<Rightarrow> gfx_call list" where
  "adjust_progress_bar_hue e bg_surface context color area bg_x bg_y =
    (case get_mask_surface (get_target context) area of
       (mask_surface, mask_calls) \<Rightarrow>
         mask_calls @
         [Cairo_set_source context bg_surface bg_x bg_y,
          Cairo_set_operator context OPERATOR_DEST_OVER,
          Cairo_rectangle context (real_of_int (rect_x area)) (real_of_int (rect_y area))
            (real_of_int (rect_width area)) (real_of_int (rect_height area)),
          Cairo_fill context,
          Cairo_set_source_rgb context (get_red e color) (get_green e color) (get_blue e color),
          Cairo_set_operator context OPERATOR_HSL_COLOR,
          Cairo_rectangle context (real_of_int (rect_x area)) (real_of_int (rect_y area))
            (real_of_int (rect_width area)) (real_of_int (rect_height area)),
          Cairo_fill context,
          Cairo_set_operator context OPERATOR_CLEAR,
          Cairo_mask context mask_surface (real_of_int (rect_x area)) (real_of_int (rect_y area)),
          Cairo_fill context])"

text \<open>
  \<^verbatim>\<open>render_progress_bar\<close>, for both toolkit versions (\<^verbatim>\<open>GTKMM_CHECK_VERSION(4, 0, 0)\<close>
  is \<open>gtkmm4\<close>). It does not write to the object.
\<close>

definition render_progress_bar ::
  "env \<Rightarrow> Impl \<Rightarrow> SnapshotPtr \<Rightarrow> gtk_widget \<Rightarrow> gdk_rectangle \<Rightarrow> cell_renderer_state set \<Rightarrow> gdk_rgba
     \<Rightarrow> gfx_call list" where
  "render_progress_bar e impl snapshot widget area flags color =
    (let temp_area = \<lparr>rect_x = 0, rect_y = 0, rect_width = rect_width area, rect_height = rect_height area\<rparr>;
         calls =
           [ImageSurface_create Temp_surface FORMAT_ARGB32 (rect_width area) (rect_height area),
            Context_create Temp_context Temp_surface];
         calls = calls @
           (if gtkmm4 e then
              [Snapshot_create,
               Render_progress (progress_renderer impl) To_temp_snapshot widget temp_area temp_area flags,
               Snapshot_free_to_node_draw Temp_context]
            else
              [Render_progress (progress_renderer impl) To_temp_context widget temp_area temp_area flags]);
         context = (if gtkmm4 e then Appended_context snapshot area else Snapshot_context snapshot);
         calls = calls @ (if gtkmm4 e then [Snapshot_append_cairo snapshot area] else []);
         surface =
           (if gtkmm4 e then get_target context
            else Sub_surface (get_target context) (rect_x area) (rect_y area) (rect_width area) (rect_height area));
         (dx, dy) = device_to_user e context (0, 0);
         calls = calls @
           adjust_progress_bar_hue e surface Temp_context color temp_area
             (dx - real_of_int (rect_x area)) (dy - real_of_int (rect_y area))
     in
       calls @
       [Cairo_set_source context (get_target Temp_context) (real_of_int (rect_x area)) (real_of_int (rect_y area)),
        Cairo_rectangle context (real_of_int (rect_x area)) (real_of_int (rect_y area))
          (real_of_int (rect_width area)) (real_of_int (rect_height area)),
        Cairo_fill context])"

subsection \<open>Rendering\<close>

text \<open>
  \<^verbatim>\<open>render_compact\<close> is embedded in two parts, split at its \<^verbatim>\<open>RENDER\<close> comment. The
  first part computes the local variables: the flags, the strings, the state of the text
  and icon renderers after the width queries, and the five rectangles.
\<close>

record compact_locals =
  flags_local :: "cell_renderer_state set"
  sensitive_local :: bool
  percentDone_local :: real
  icon_local :: string
  name_local :: string
  progress_color_local :: gdk_rgba
  gstr_stat_local :: string
  text_r_local :: text_props
  icon_r_local :: pixbuf_props
  fill_area :: gdk_rectangle
  icon_area :: gdk_rectangle
  prog_area :: gdk_rectangle
  stat_area :: gdk_rectangle
  name_area :: gdk_rectangle

definition render_compact_layout ::
  "env \<Rightarrow> Impl \<Rightarrow> tr_torrent \<Rightarrow> gtk_widget \<Rightarrow> gdk_rectangle \<Rightarrow> cell_renderer_state set \<Rightarrow> compact_locals" where
  "render_compact_layout e impl tor widget background_area flags0 =
    (let st = tr_torrentStatCached tor;
         active = (activity st \<noteq> TR_STATUS_STOPPED \<and> activity st \<noteq> TR_STATUS_DOWNLOAD_WAIT \<and>
                   activity st \<noteq> TR_STATUS_SEED_WAIT);
         (percentDone, seed) = get_percent_done tor st;
         sensitive = (active \<or> error st \<noteq> TR_STAT_OK);
         flags = (if activity st = TR_STATUS_STOPPED then flags0 \<union> {INSENSITIVE} else flags0);
         text_r =
           (if error st \<noteq> TR_STAT_OK \<and> SELECTED \<notin> flags
            then (text_renderer impl)\<lparr>text_foreground := ''red''\<rparr>
            else (text_renderer impl)\<lparr>text_foreground_set := False\<rparr>);
         icon = get_icon e tor;
         name = tr_torrentName tor;
         progress_color = get_progress_bar_color st;
         gstr_stat = getShortStatusString e tor st (upload_speed_KBps impl) (download_speed_KBps impl);
         xpad = renderer_xpad impl;
         ypad = renderer_ypad impl;

         fill_area = background_area;
         fill_area = fill_area\<lparr>rect_x := int32 (rect_x fill_area + xpad)\<rparr>;
         fill_area = fill_area\<lparr>rect_y := int32 (rect_y fill_area + ypad)\<rparr>;
         fill_area = fill_area\<lparr>rect_width := int32 (rect_width fill_area - xpad * 2)\<rparr>;
         fill_area = fill_area\<lparr>rect_height := int32 (rect_height fill_area - ypad * 2)\<rparr>;

         icon_area = fill_area;
         icon_r = set_icon (icon_renderer impl) icon (CompactIconSize e);
         width = snd (icon_get_preferred_width e icon_r widget);
         icon_area = icon_area\<lparr>rect_width := width\<rparr>;

         prog_area = fill_area;
         prog_area = prog_area\<lparr>rect_width := CompactBarWidth\<rparr>;

         stat_area = fill_area;
         text_r = text_r\<lparr>text_text := gstr_stat, text_ellipsize := ELLIPSIZE_NONE, text_scale := SmallScale\<rparr>;
         width = snd (text_get_preferred_width e text_r widget);
         stat_area = stat_area\<lparr>rect_width := width\<rparr>;

         name_area = fill_area;
         name_area = name_area\<lparr>rect_width :=
           int32 (rect_width fill_area - rect_width icon_area - rect_width stat_area - rect_width prog_area - GUI_PAD e * 3)\<rparr>;

         (icon_area, prog_area, stat_area, name_area) =
           (if DIR_RTL \<notin> get_state e widget flags then
              (let icon_area = icon_area\<lparr>rect_x := rect_x fill_area\<rparr>;
                   prog_area = prog_area\<lparr>rect_x := int32 (rect_x fill_area + rect_width fill_area - rect_width prog_area)\<rparr>;
                   stat_area = stat_area\<lparr>rect_x := int32 (rect_x prog_area - rect_width stat_area - GUI_PAD e)\<rparr>;
                   name_area = name_area\<lparr>rect_x := int32 (rect_x icon_area + rect_width icon_area + GUI_PAD e)\<rparr>
               in (icon_area, prog_area, stat_area, name_area))
            else
              (let icon_area = icon_area\<lparr>rect_x := int32 (rect_x fill_area + rect_width fill_area - rect_width icon_area)\<rparr>;
                   prog_area = prog_area\<lparr>rect_x := rect_x fill_area\<rparr>;
                   stat_area = stat_area\<lparr>rect_x := int32 (rect_x prog_area + rect_width prog_area + GUI_PAD e)\<rparr>;
                   name_area = name_area\<lparr>rect_x := int32 (rect_x stat_area + rect_width stat_area + GUI_PAD e)\<rparr>
               in (icon_area, prog_area, stat_area, name_area)))
     in
       \<lparr>flags_local = flags, sensitive_local = sensitive, percentDone_local = percentDone,
        icon_local = icon, name_local = name, progress_color_local = progress_color,
        gstr_stat_local = gstr_stat, text_r_local = text_r, icon_r_local = icon_r,
        fill_area = fill_area, icon_area = icon_area, prog_area = prog_area,
        stat_area = stat_area, name_area = name_area\<rparr>)"

text \<open>
  The second part issues the drawing calls. \<^verbatim>\<open>render_compact\<close> reads the statistics of
  the torrent without a check of the pointer.
\<close>

definition render_compact ::
  "env \<Rightarrow> Impl \<Rightarrow> SnapshotPtr \<Rightarrow> gtk_widget \<Rightarrow> gdk_rectangle \<Rightarrow> cell_renderer_state set
     \<Rightarrow> error + (Impl \<times> gfx_call list)" where
  "render_compact e impl snapshot widget background_area flags0 =
    (case torrent impl of
       None \<Rightarrow> Inl NullPointerDereference
     | Some tor \<Rightarrow>
        (let l = render_compact_layout e impl tor widget background_area flags0;
             flags = flags_local l;

             icon_r = set_icon (icon_r_local l) (icon_local l) (CompactIconSize e);
             icon_r = icon_r\<lparr>pixbuf_sensitive := sensitive_local l\<rparr>;
             calls = [Render_icon icon_r (To_snapshot snapshot) widget (icon_area l) (icon_area l) flags];

             percent_done = static_cast_int (percentDone_local l * 100);
             progress_r = (progress_renderer impl)\<lparr>progress_value := percent_done,
                progress_text := fmt_format e ''{:d}%'' [positional (fmt_int percent_done)],
                progress_sensitive := sensitive_local l\<rparr>;
             impl = impl\<lparr>icon_renderer := icon_r, progress_renderer := progress_r\<rparr>;
             calls = calls @ render_progress_bar e impl snapshot widget (prog_area l) flags (progress_color_local l);

             text_r = (text_r_local l)\<lparr>text_text := gstr_stat_local l, text_scale := SmallScale,
                text_ellipsize := ELLIPSIZE_END\<rparr>;
             calls = calls @ [Render_text text_r (To_snapshot snapshot) widget (stat_area l) (stat_area l) flags];

             text_r = text_r\<lparr>text_text := name_local l, text_scale := 1\<rparr>;
             calls = calls @ [Render_text text_r (To_snapshot snapshot) widget (name_area l) (name_area l) flags]
         in Inr (impl\<lparr>text_renderer := text_r\<rparr>, calls)))"

text \<open>\<^verbatim>\<open>render_full\<close>.\<close>

definition render_full ::
  "env \<Rightarrow> Impl \<Rightarrow> SnapshotPtr \<Rightarrow> gtk_widget \<Rightarrow> gdk_rectangle \<Rightarrow> cell_renderer_state set
     \<Rightarrow> error + (Impl \<times> gfx_call list)" where
  "render_full e impl snapshot widget background_area flags0 =
    (case torrent impl of
       None \<Rightarrow> Inl NullPointerDereference
     | Some tor \<Rightarrow>
        (let st = tr_torrentStatCached tor;
             total_size = tr_torrentTotalSize tor;
             active = (activity st \<noteq> TR_STATUS_STOPPED \<and> activity st \<noteq> TR_STATUS_DOWNLOAD_WAIT \<and>
                       activity st \<noteq> TR_STATUS_SEED_WAIT);
             (percentDone, seed) = get_percent_done tor st;
             sensitive = (active \<or> error st \<noteq> TR_STAT_OK);
             flags = (if activity st = TR_STATUS_STOPPED then flags0 \<union> {INSENSITIVE} else flags0);
             text_r =
               (if error st \<noteq> TR_STAT_OK \<and> SELECTED \<notin> flags
                then (text_renderer impl)\<lparr>text_foreground := ''red''\<rparr>
                else (text_renderer impl)\<lparr>text_foreground_set := False\<rparr>);
             icon = get_icon e tor;
             name = tr_torrentName tor;
             progress_color = get_progress_bar_color st;
             gstr_prog = getProgressString e tor total_size st
         in
           case getStatusString e tor st (upload_speed_KBps impl) (download_speed_KBps impl) False of
             Inl err \<Rightarrow> Inl err
           | Inr gstr_stat \<Rightarrow>
              (let xpad = renderer_xpad impl;
                   ypad = renderer_ypad impl;

                   icon_area = Rectangle;
                   icon_r = set_icon (icon_renderer impl) icon (FullIconSize e);
                   size = snd (icon_get_preferred_size e icon_r widget);
                   icon_area = icon_area\<lparr>rect_width := REQ_WIDTH size\<rparr>;
                   icon_area = icon_area\<lparr>rect_height := REQ_HEIGHT size\<rparr>;

                   name_area = Rectangle;
                   text_r = text_r\<lparr>text_text := name, text_weight := WEIGHT_BOLD,
                      text_ellipsize := ELLIPSIZE_NONE, text_scale := 1\<rparr>;
                   size = snd (text_get_preferred_size e text_r widget);
                   name_area = name_area\<lparr>rect_height := REQ_HEIGHT size\<rparr>;

                   prog_area = Rectangle;
                   text_r = text_r\<lparr>text_text := gstr_prog, text_weight := WEIGHT_NORMAL,
                      text_scale := SmallScale\<rparr>;
                   size = snd (text_get_preferred_size e text_r widget);
                   prog_area = prog_area\<lparr>rect_height := REQ_HEIGHT size\<rparr>;

                   stat_area = Rectangle;
                   text_r = text_r\<lparr>text_text := gstr_stat\<rparr>;
                   size = snd (text_get_preferred_size e text_r widget);
                   stat_area = stat_area\<lparr>rect_height := REQ_HEIGHT size\<rparr>;

                   prct_area = Rectangle;

                   fill_area = background_area;
                   fill_area = fill_area\<lparr>rect_x := int32 (rect_x fill_area + xpad)\<rparr>;
                   fill_area = fill_area\<lparr>rect_y := int32 (rect_y fill_area + ypad)\<rparr>;
                   fill_area = fill_area\<lparr>rect_width := int32 (rect_width fill_area - xpad * 2)\<rparr>;
                   fill_area = fill_area\<lparr>rect_height := int32 (rect_height fill_area - ypad * 2)\<rparr>;

                   icon_area = icon_area\<lparr>rect_y :=
                     int32 (rect_y fill_area + int_div (int32 (rect_height fill_area - rect_height icon_area)) 2)\<rparr>;

                   name_area = name_area\<lparr>rect_y := rect_y fill_area\<rparr>;
                   name_area = name_area\<lparr>rect_width := int32 (rect_width fill_area - GUI_PAD e - rect_width icon_area)\<rparr>;

                   (icon_area, name_area) =
                     (if DIR_RTL \<notin> get_state e widget flags then
                        (icon_area\<lparr>rect_x := rect_x fill_area\<rparr>,
                         name_area\<lparr>rect_x := int32 (rect_x fill_area + rect_width fill_area - rect_width name_area)\<rparr>)
                      else
                        (icon_area\<lparr>rect_x := int32 (rect_x fill_area + rect_width fill_area - rect_width icon_area)\<rparr>,
                         name_area\<lparr>rect_x := rect_x fill_area\<rparr>));

                   prog_area = prog_area\<lparr>rect_x := rect_x name_area\<rparr>;
                   prog_area = prog_area\<lparr>rect_y := int32 (rect_y name_area + rect_height name_area)\<rparr>;
                   prog_area = prog_area\<lparr>rect_width := rect_width name_area\<rparr>;

                   prct_area = prct_area\<lparr>rect_x := rect_x prog_area\<rparr>;
                   prct_area = prct_area\<lparr>rect_y := int32 (rect_y prog_area + rect_height prog_area + GUI_PAD_SMALL e)\<rparr>;
                   prct_area = prct_area\<lparr>rect_width := rect_width prog_area\<rparr>;
                   prct_area = prct_area\<lparr>rect_height := bar_height impl\<rparr>;

                   stat_area = stat_area\<lparr>rect_x := rect_x prct_area\<rparr>;
                   stat_area = stat_area\<lparr>rect_y := int32 (rect_y prct_area + rect_height prct_area + GUI_PAD_SMALL e)\<rparr>;
                   stat_area = stat_area\<lparr>rect_width := rect_width prct_area\<rparr>;

                   icon_r = set_icon icon_r icon (FullIconSize e);
                   icon_r = icon_r\<lparr>pixbuf_sensitive := sensitive\<rparr>;
                   calls = [Render_icon icon_r (To_snapshot snapshot) widget icon_area icon_area flags];

                   text_r = text_r\<lparr>text_text := name, text_scale := 1, text_ellipsize := ELLIPSIZE_END,
                      text_weight := WEIGHT_BOLD\<rparr>;
                   calls = calls @ [Render_text text_r (To_snapshot snapshot) widget name_area name_area flags];

                   text_r = text_r\<lparr>text_text := gstr_prog, text_scale := SmallScale, text_weight := WEIGHT_NORMAL\<rparr>;
                   calls = calls @ [Render_text text_r (To_snapshot snapshot) widget prog_area prog_area flags];

                   progress_r = (progress_renderer impl)\<lparr>progress_value := static_cast_int (percentDone * 100),
                      progress_text := [], progress_sensitive := sensitive\<rparr>;
                   impl = impl\<lparr>icon_renderer := icon_r, progress_renderer := progress_r\<rparr>;
                   calls = calls @ render_progress_bar e impl snapshot widget prct_area flags progress_color;

                   text_r = text_r\<lparr>text_text := gstr_stat\<rparr>;
                   calls = calls @ [Render_text text_r (To_snapshot snapshot) widget stat_area stat_area flags]
               in Inr (impl\<lparr>text_renderer := text_r\<rparr>, calls))))"

text \<open>
  \<^verbatim>\<open>snapshot_vfunc\<close> (GTK 4) or \<^verbatim>\<open>render_vfunc\<close> (GTK 3); \<^verbatim>\<open>TEST_RTL\<close> is not defined.
\<close>

definition render_vfunc ::
  "env \<Rightarrow> Impl \<Rightarrow> SnapshotPtr \<Rightarrow> gtk_widget \<Rightarrow> gdk_rectangle \<Rightarrow> gdk_rectangle \<Rightarrow> cell_renderer_state set
     \<Rightarrow> error + (Impl \<times> gfx_call list)" where
  "render_vfunc e impl snapshot widget background_area cell_area flags =
    (if torrent impl \<noteq> None then
       (if compact impl then render_compact e impl snapshot widget background_area flags
        else render_full e impl snapshot widget background_area flags)
     else Inr (impl, []))"

subsection \<open>An instance of the libraries\<close>

text \<open>
  To run the embedding, the libraries are instantiated with simple functions: messages
  are not translated, \<open>fmt_subst\<close> replaces the fields \<^verbatim>\<open>{name}\<close>, \<^verbatim>\<open>{:s}\<close> and
  \<^verbatim>\<open>{:d}\<close> of a format string, sizes are printed in bytes, a text is 8 pixels a
  character wide and 16 high, an icon is 16 by 16, and the three colours have their CSS
  components.
\<close>

fun decimal :: "nat \<Rightarrow> string" where
  "decimal n = (if n < 10 then [''0123456789'' ! n] else decimal (n div 10) @ [''0123456789'' ! (n mod 10)])"

declare decimal.simps [simp del]

definition show_fmt_value :: "fmt_value \<Rightarrow> string" where
  "show_fmt_value v =
    (case v of
       fmt_str s \<Rightarrow> s
     | fmt_int i \<Rightarrow> (if i < 0 then ''-'' else []) @ decimal (nat \<bar>i\<bar>)
     | fmt_double d \<Rightarrow> (if d < 0 then ''-'' else []) @ decimal (nat \<lfloor>\<bar>d\<bar>\<rfloor>))"

fun lookup_arg :: "string \<Rightarrow> fmt_arg list \<Rightarrow> string \<times> fmt_arg list" where
  "lookup_arg field [] = ([], [])"
| "lookup_arg field (arg n v # as) =
     (if n = field then (show_fmt_value v, arg n v # as)
      else (case lookup_arg field as of (s, as') \<Rightarrow> (s, arg n v # as')))"
| "lookup_arg field (positional v # as) =
     (if field = [] then (show_fmt_value v, as)
      else (case lookup_arg field as of (s, as') \<Rightarrow> (s, positional v # as')))"

text \<open>
  \<open>fmt_scan args field template\<close>: \<open>field\<close> is \<open>None\<close> outside a replacement field and
  holds the characters read so far inside one; a format specification after \<^verbatim>\<open>:\<close> is
  dropped, and a positional argument is used up by the field it fills.
\<close>

fun fmt_scan :: "fmt_arg list \<Rightarrow> string option \<Rightarrow> string \<Rightarrow> string" where
  "fmt_scan args None [] = []"
| "fmt_scan args (Some field) [] = []"
| "fmt_scan args None (c # cs) =
     (if c = CHR ''{'' then fmt_scan args (Some []) cs else c # fmt_scan args None cs)"
| "fmt_scan args (Some field) (c # cs) =
     (if c = CHR ''}'' then
        (case lookup_arg (takeWhile (\<lambda>x. x \<noteq> CHR '':'') field) args of
           (s, args') \<Rightarrow> s @ fmt_scan args' None cs)
      else fmt_scan args (Some (field @ [c])) cs)"

definition fmt_subst :: "string \<Rightarrow> fmt_arg list \<Rightarrow> string" where
  "fmt_subst template args = fmt_scan args None template"

definition plain_env :: env where
  "plain_env =
    \<lparr>gtkmm4 = False,
     GUI_PAD = 6,
     GUI_PAD_SMALL = 4,
     gettext = (\<lambda>msgid. msgid),
     ngettext = (\<lambda>msgid msgid_plural n. if n = 1 then msgid else msgid_plural),
     fmt_format = fmt_subst,
     tr_strlsize = (\<lambda>n. decimal (unat n) @ '' B''),
     tr_strpercent = (\<lambda>x. decimal (nat \<lfloor>x\<rfloor>)),
     tr_strlratio = (\<lambda>x. decimal (nat \<lfloor>x\<rfloor>)),
     tr_format_time_left = (\<lambda>n. decimal (nat n) @ '' seconds remaining''),
     tr_formatter_speed_KBps = (\<lambda>x. decimal (nat \<lfloor>x\<rfloor>) @ '' kB/s''),
     tr_truncd = (\<lambda>x n. x),
     UnknownMimeType = ''application/octet-stream'',
     DirectoryMimeType = ''folder'',
     tr_get_mime_type_for_filename = (\<lambda>file_name. ''application/octet-stream''),
     gtr_get_mime_type_icon = (\<lambda>mime_type. mime_type),
     icon_get_preferred_size = (\<lambda>p w. (\<lparr>req_width = 16, req_height = 16\<rparr>, \<lparr>req_width = 16, req_height = 16\<rparr>)),
     icon_get_preferred_width = (\<lambda>p w. (16, 16)),
     text_get_preferred_size = (\<lambda>p w. (\<lparr>req_width = 0, req_height = 16\<rparr>,
        \<lparr>req_width = 8 * int (length (text_text p)), req_height = 16\<rparr>)),
     text_get_preferred_width = (\<lambda>p w. (0, 8 * int (length (text_text p)))),
     get_state = (\<lambda>w flags. widget_state w),
     get_red = (\<lambda>c. if c = RGBA ''steelblue'' then 70 / 255 else if c = RGBA ''forestgreen'' then 34 / 255 else 192 / 255),
     get_green = (\<lambda>c. if c = RGBA ''steelblue'' then 130 / 255 else if c = RGBA ''forestgreen'' then 139 / 255 else 192 / 255),
     get_blue = (\<lambda>c. if c = RGBA ''steelblue'' then 180 / 255 else if c = RGBA ''forestgreen'' then 34 / 255 else 192 / 255),
     device_to_user = (\<lambda>c p. p)\<rparr>"

text \<open>A torrent of one file that is a quarter downloaded and paused, and a renderer on it.\<close>

definition paused_stat :: tr_stat where
  "paused_stat =
    \<lparr>activity = TR_STATUS_STOPPED, error = TR_STAT_OK, errorString = [],
     leftUntilDone = 150, haveUnchecked = 0, haveValid = 50, sizeWhenDone = 200, uploadedEver = 0,
     percentDone = 1 / 4, percentComplete = 1 / 4, seedRatioPercentDone = 0,
     metadataPercentComplete = 1, recheckProgress = 0, ratio = 0, eta = - 1,
     peersConnected = 0, peersSendingToUs = 0, peersGettingFromUs = 0, webseedsSendingToUs = 0,
     isStalled = False, finished = False\<rparr>"

definition paused_torrent :: tr_torrent where
  "paused_torrent =
    \<lparr>name = ''a.iso'', files = [''a.iso''], hasMetadata = True, totalSize = 200,
     statCached = paused_stat, seedRatio = None\<rparr>"

definition plain_text_props :: text_props where
  "plain_text_props =
    \<lparr>text_text = [], text_ellipsize = ELLIPSIZE_NONE, text_scale = 1, text_weight = WEIGHT_NORMAL,
     text_foreground = [], text_foreground_set = False\<rparr>"

definition plain_impl :: Impl where
  "plain_impl =
    \<lparr>torrent = Some paused_torrent, bar_height = 12, upload_speed_KBps = 0, download_speed_KBps = 0,
     compact = True, renderer_xpad = 2, renderer_ypad = 1,
     text_renderer = plain_text_props,
     progress_renderer = \<lparr>progress_value = 0, progress_text = [], progress_sensitive = True\<rparr>,
     icon_renderer = \<lparr>pixbuf_gicon = [], pixbuf_icon_size = ICON_SIZE_MENU, pixbuf_sensitive = True\<rparr>\<rparr>"

definition ltr_widget :: gtk_widget where
  "ltr_widget = \<lparr>widget_state = {DIR_LTR}\<rparr>"

definition rtl_widget :: gtk_widget where
  "rtl_widget = \<lparr>widget_state = {DIR_RTL}\<rparr>"

section \<open>The statements of the specification\<close>

subsection \<open>The five messages of the progress string\<close>

text \<open>
  The specification names five formats of the progress string, chosen by \<open>isDone\<close>
  (nothing is left until done), \<open>isSeed\<close> (everything of the torrent is there and
  verified) and whether a seed ratio is set, and a time-remaining suffix.
\<close>

datatype progress_format =
    Downloading
  | PartialSeedWithRatio
  | PartialSeedNoRatio
  | SeedWithRatio
  | SeedNoRatio

definition isDone_spec :: "tr_stat \<Rightarrow> bool" where
  "isDone_spec st = (leftUntilDone st = 0)"

definition isSeed_spec :: "uint64_t \<Rightarrow> tr_stat \<Rightarrow> bool" where
  "isSeed_spec total_size st = (haveValid st \<ge> total_size)"

definition hasSeedRatio_spec :: "tr_torrent \<Rightarrow> bool" where
  "hasSeedRatio_spec tor = (tr_torrentGetSeedRatio tor \<noteq> None)"

definition progress_format_of :: "tr_torrent \<Rightarrow> uint64_t \<Rightarrow> tr_stat \<Rightarrow> progress_format" where
  "progress_format_of tor total_size st =
    (if \<not> isDone_spec st then Downloading
     else if isSeed_spec total_size st then
       (if hasSeedRatio_spec tor then SeedWithRatio else SeedNoRatio)
     else
       (if hasSeedRatio_spec tor then PartialSeedWithRatio else PartialSeedNoRatio))"

definition goal_arg :: "env \<Rightarrow> tr_torrent \<Rightarrow> fmt_arg" where
  "goal_arg e tor =
    arg ''seed_ratio'' (fmt_str (tr_strlratio e (case tr_torrentGetSeedRatio tor of Some r \<Rightarrow> r | None \<Rightarrow> 0)))"

fun progress_message :: "progress_format \<Rightarrow> env \<Rightarrow> tr_torrent \<Rightarrow> uint64_t \<Rightarrow> tr_stat \<Rightarrow> string" where
  "progress_message Downloading e tor total_size st =
     fmt_format e (gettext e ''{current_size} of {complete_size} ({percent_done}%)'')
       [arg ''current_size'' (fmt_str (tr_strlsize e (haveUnchecked st + haveValid st))),
        arg ''complete_size'' (fmt_str (tr_strlsize e (sizeWhenDone st))),
        arg ''percent_done'' (fmt_str (tr_strpercent e (percentDone st * 100)))]"
| "progress_message PartialSeedWithRatio e tor total_size st =
     fmt_format e (gettext e
         ''{current_size} of {complete_size} ({percent_complete}%), uploaded {uploaded_size} (Ratio: {ratio}, Goal: {seed_ratio})'')
       [arg ''current_size'' (fmt_str (tr_strlsize e (haveUnchecked st + haveValid st))),
        arg ''complete_size'' (fmt_str (tr_strlsize e total_size)),
        arg ''percent_complete'' (fmt_str (tr_strpercent e (percentComplete st * 100))),
        arg ''uploaded_size'' (fmt_str (tr_strlsize e (uploadedEver st))),
        arg ''ratio'' (fmt_str (tr_strlratio e (ratio st))),
        goal_arg e tor]"
| "progress_message PartialSeedNoRatio e tor total_size st =
     fmt_format e (gettext e
         ''{current_size} of {complete_size} ({percent_complete}%), uploaded {uploaded_size} (Ratio: {ratio})'')
       [arg ''current_size'' (fmt_str (tr_strlsize e (haveUnchecked st + haveValid st))),
        arg ''complete_size'' (fmt_str (tr_strlsize e total_size)),
        arg ''percent_complete'' (fmt_str (tr_strpercent e (percentComplete st * 100))),
        arg ''uploaded_size'' (fmt_str (tr_strlsize e (uploadedEver st))),
        arg ''ratio'' (fmt_str (tr_strlratio e (ratio st)))]"
| "progress_message SeedWithRatio e tor total_size st =
     fmt_format e (gettext e ''{complete_size}, uploaded {uploaded_size} (Ratio: {ratio}, Goal: {seed_ratio})'')
       [arg ''complete_size'' (fmt_str (tr_strlsize e total_size)),
        arg ''uploaded_size'' (fmt_str (tr_strlsize e (uploadedEver st))),
        arg ''ratio'' (fmt_str (tr_strlratio e (ratio st))),
        goal_arg e tor]"
| "progress_message SeedNoRatio e tor total_size st =
     fmt_format e (gettext e ''{complete_size}, uploaded {uploaded_size} (Ratio: {ratio})'')
       [arg ''complete_size'' (fmt_str (tr_strlsize e total_size)),
        arg ''uploaded_size'' (fmt_str (tr_strlsize e (uploadedEver st))),
        arg ''ratio'' (fmt_str (tr_strlratio e (ratio st)))]"

definition has_time_remaining :: "tr_torrent \<Rightarrow> tr_stat \<Rightarrow> bool" where
  "has_time_remaining tor st =
    (activity st = TR_STATUS_DOWNLOAD \<or> (hasSeedRatio_spec tor \<and> activity st = TR_STATUS_SEED))"

definition time_remaining :: "env \<Rightarrow> tr_stat \<Rightarrow> string" where
  "time_remaining e st =
    (if eta st < 0 then gettext e ''Remaining time unknown'' else tr_format_time_left e (eta st))"

definition time_remaining_suffix :: "env \<Rightarrow> tr_torrent \<Rightarrow> tr_stat \<Rightarrow> string" where
  "time_remaining_suffix e tor st =
    (if has_time_remaining tor st then '' - '' @ time_remaining e st else [])"

text \<open>A torrent that is downloading with a known time left, for the same renderer.\<close>

definition downloading_stat :: tr_stat where
  "downloading_stat = paused_stat\<lparr>activity := TR_STATUS_DOWNLOAD, eta := 90, peersConnected := 3,
     peersSendingToUs := 2\<rparr>"

definition downloading_torrent :: tr_torrent where
  "downloading_torrent = paused_torrent\<lparr>statCached := downloading_stat\<rparr>"

subsection \<open>The status string\<close>

text \<open>
  What \<^verbatim>\<open>getStatusString\<close> appends for a torrent that is downloading or seeding: the
  short transfer string, when there is one.
\<close>

definition transfer_suffix :: "env \<Rightarrow> tr_torrent \<Rightarrow> tr_stat \<Rightarrow> real \<Rightarrow> real \<Rightarrow> string" where
  "transfer_suffix e tor st up down =
    (if activity st \<in> {TR_STATUS_DOWNLOAD, TR_STATUS_SEED, TR_STATUS_other} \<and>
        getShortTransferString e tor st up down \<noteq> []
     then fmt_format e '' - {:s}'' [positional (fmt_str (getShortTransferString e tor st up down))]
     else [])"

definition tracker_error_stat :: tr_stat where
  "tracker_error_stat = downloading_stat\<lparr>error := TR_STAT_TRACKER_ERROR, errorString := ''timeout''\<rparr>"

subsection \<open>The layout mode\<close>

text \<open>
  The specification says that every size request and every render request runs in the
  mode that \<open>compact\<close> selects: the sizes are those of \<^verbatim>\<open>get_size_compact\<close> or
  \<^verbatim>\<open>get_size_full\<close>, reported as minimum and as natural size, and the drawing is that
  of \<^verbatim>\<open>render_compact\<close> or \<^verbatim>\<open>render_full\<close>.
\<close>

definition width_via :: "error + (Impl \<times> int \<times> int) \<Rightarrow> error + (Impl \<times> int \<times> int)" where
  "width_via r = (case r of Inl err \<Rightarrow> Inl err | Inr (impl', w, h) \<Rightarrow> Inr (impl', w, w))"

definition height_via :: "error + (Impl \<times> int \<times> int) \<Rightarrow> error + (Impl \<times> int \<times> int)" where
  "height_via r = (case r of Inl err \<Rightarrow> Inl err | Inr (impl', w, h) \<Rightarrow> Inr (impl', h, h))"

definition mode_selected_by_compact ::
  "env \<Rightarrow> Impl \<Rightarrow> SnapshotPtr \<Rightarrow> gtk_widget \<Rightarrow> gdk_rectangle \<Rightarrow> gdk_rectangle \<Rightarrow> cell_renderer_state set
     \<Rightarrow> int \<times> int \<Rightarrow> bool" where
  "mode_selected_by_compact e impl snapshot widget background_area cell_area flags out =
    (if compact impl then
       get_preferred_width_vfunc e impl widget out = width_via (get_size_compact e impl widget) \<and>
       get_preferred_height_vfunc e impl widget out = height_via (get_size_compact e impl widget) \<and>
       render_vfunc e impl snapshot widget background_area cell_area flags =
         render_compact e impl snapshot widget background_area flags
     else
       get_preferred_width_vfunc e impl widget out = width_via (get_size_full e impl widget) \<and>
       get_preferred_height_vfunc e impl widget out = height_via (get_size_full e impl widget) \<and>
       render_vfunc e impl snapshot widget background_area cell_area flags =
         render_full e impl snapshot widget background_area flags)"

definition null_impl :: Impl where
  "null_impl = plain_impl\<lparr>torrent := None\<rparr>"

definition row_area :: gdk_rectangle where
  "row_area = \<lparr>rect_x = 0, rect_y = 0, rect_width = 300, rect_height = 60\<rparr>"

definition narrow_area :: gdk_rectangle where
  "narrow_area = \<lparr>rect_x = 0, rect_y = 0, rect_width = 40, rect_height = 20\<rparr>"

subsection \<open>The sizes\<close>

text \<open>
  The natural sizes that the child renderers report for the icon, the name, the short
  status (compact mode), the progress string and the status string (full mode), each
  asked with the properties the file has set at that point.
\<close>

definition icon_natural_size :: "env \<Rightarrow> Impl \<Rightarrow> tr_torrent \<Rightarrow> gtk_widget \<Rightarrow> icon_size \<Rightarrow> requisition" where
  "icon_natural_size e impl tor widget icon_size =
    snd (icon_get_preferred_size e (set_icon (icon_renderer impl) (get_icon e tor) icon_size) widget)"

definition compact_name_props :: "Impl \<Rightarrow> tr_torrent \<Rightarrow> text_props" where
  "compact_name_props impl tor =
    (text_renderer impl)\<lparr>text_text := tr_torrentName tor, text_ellipsize := ELLIPSIZE_NONE, text_scale := 1\<rparr>"

definition compact_stat_props :: "env \<Rightarrow> Impl \<Rightarrow> tr_torrent \<Rightarrow> text_props" where
  "compact_stat_props e impl tor =
    (compact_name_props impl tor)\<lparr>text_text :=
       getShortStatusString e tor (tr_torrentStatCached tor) (upload_speed_KBps impl) (download_speed_KBps impl),
       text_scale := SmallScale\<rparr>"

definition full_name_props :: "Impl \<Rightarrow> tr_torrent \<Rightarrow> text_props" where
  "full_name_props impl tor =
    (text_renderer impl)\<lparr>text_text := tr_torrentName tor, text_weight := WEIGHT_BOLD, text_scale := 1,
       text_ellipsize := ELLIPSIZE_NONE\<rparr>"

definition full_prog_props :: "env \<Rightarrow> Impl \<Rightarrow> tr_torrent \<Rightarrow> text_props" where
  "full_prog_props e impl tor =
    (full_name_props impl tor)\<lparr>text_text :=
       getProgressString e tor (tr_torrentTotalSize tor) (tr_torrentStatCached tor),
       text_weight := WEIGHT_NORMAL, text_scale := SmallScale\<rparr>"

definition full_stat_props :: "env \<Rightarrow> Impl \<Rightarrow> tr_torrent \<Rightarrow> string \<Rightarrow> text_props" where
  "full_stat_props e impl tor gstr_stat = (full_prog_props e impl tor)\<lparr>text_text := gstr_stat\<rparr>"

definition text_natural_size :: "env \<Rightarrow> text_props \<Rightarrow> gtk_widget \<Rightarrow> requisition" where
  "text_natural_size e props widget = snd (text_get_preferred_size e props widget)"

definition compact_width :: "env \<Rightarrow> Impl \<Rightarrow> tr_torrent \<Rightarrow> gtk_widget \<Rightarrow> int" where
  "compact_width e impl tor widget =
    2 * renderer_xpad impl + req_width (icon_natural_size e impl tor widget (CompactIconSize e)) +
    GUI_PAD e + 50 + GUI_PAD e +
    req_width (text_natural_size e (compact_stat_props e impl tor) widget)"

definition compact_height :: "env \<Rightarrow> Impl \<Rightarrow> tr_torrent \<Rightarrow> gtk_widget \<Rightarrow> int" where
  "compact_height e impl tor widget =
    2 * renderer_ypad impl +
    max (req_height (text_natural_size e (compact_name_props impl tor) widget)) (bar_height impl)"

definition full_width :: "env \<Rightarrow> Impl \<Rightarrow> tr_torrent \<Rightarrow> gtk_widget \<Rightarrow> string \<Rightarrow> int" where
  "full_width e impl tor widget gstr_stat =
    2 * renderer_xpad impl + req_width (icon_natural_size e impl tor widget (FullIconSize e)) +
    GUI_PAD e +
    max (req_width (text_natural_size e (full_prog_props e impl tor) widget))
        (req_width (text_natural_size e (full_stat_props e impl tor gstr_stat) widget))"

definition full_height :: "env \<Rightarrow> Impl \<Rightarrow> tr_torrent \<Rightarrow> gtk_widget \<Rightarrow> string \<Rightarrow> int" where
  "full_height e impl tor widget gstr_stat =
    2 * renderer_ypad impl +
    req_height (text_natural_size e (full_name_props impl tor) widget) +
    req_height (text_natural_size e (full_prog_props e impl tor) widget) +
    GUI_PAD_SMALL e + bar_height impl + GUI_PAD_SMALL e +
    req_height (text_natural_size e (full_stat_props e impl tor gstr_stat) widget)"

text \<open>The sizes of a result, without the renderer.\<close>

definition sizes_of :: "error + (Impl \<times> int \<times> int) \<Rightarrow> error + (int \<times> int)" where
  "sizes_of r = (case r of Inl err \<Rightarrow> Inl err | Inr (impl', a, b) \<Rightarrow> Inr (a, b))"

subsection \<open>The packing of the compact row\<close>

text \<open>
  The fill area is the background area without the padding. A region lies inside an
  area when none of its four edges is outside. The mirror image of a region in an area
  has the same distance to the area's right edge as the region to its left edge.
\<close>

definition padding_inset :: "Impl \<Rightarrow> gdk_rectangle \<Rightarrow> gdk_rectangle" where
  "padding_inset impl background_area =
    \<lparr>rect_x = rect_x background_area + renderer_xpad impl,
     rect_y = rect_y background_area + renderer_ypad impl,
     rect_width = rect_width background_area - 2 * renderer_xpad impl,
     rect_height = rect_height background_area - 2 * renderer_ypad impl\<rparr>"

definition rect_inside :: "gdk_rectangle \<Rightarrow> gdk_rectangle \<Rightarrow> bool" where
  "rect_inside region area =
    (rect_x area \<le> rect_x region \<and>
     rect_x region + rect_width region \<le> rect_x area + rect_width area \<and>
     rect_y area \<le> rect_y region \<and>
     rect_y region + rect_height region \<le> rect_y area + rect_height area)"

definition mirror_in :: "gdk_rectangle \<Rightarrow> gdk_rectangle \<Rightarrow> gdk_rectangle" where
  "mirror_in area region =
    region\<lparr>rect_x := rect_x area + (rect_x area + rect_width area - (rect_x region + rect_width region))\<rparr>"

text \<open>
  The packing from left to right: the icon at the left edge, the progress bar at the
  right edge, the status left of the bar and the name right of the icon, each a pad
  away. From right to left: the icon at the right edge, the bar at the left edge, the
  status right of the bar and the name right of the status.
\<close>

definition packed_ltr ::
  "int \<Rightarrow> gdk_rectangle \<Rightarrow> gdk_rectangle \<Rightarrow> gdk_rectangle \<Rightarrow> gdk_rectangle \<Rightarrow> gdk_rectangle \<Rightarrow> bool" where
  "packed_ltr pad fill icon prog stat nam =
    (rect_x icon = rect_x fill \<and>
     rect_x prog + rect_width prog = rect_x fill + rect_width fill \<and>
     rect_x stat + rect_width stat + pad = rect_x prog \<and>
     rect_x nam = rect_x icon + rect_width icon + pad)"

definition packed_rtl ::
  "int \<Rightarrow> gdk_rectangle \<Rightarrow> gdk_rectangle \<Rightarrow> gdk_rectangle \<Rightarrow> gdk_rectangle \<Rightarrow> gdk_rectangle \<Rightarrow> bool" where
  "packed_rtl pad fill icon prog stat nam =
    (rect_x icon + rect_width icon = rect_x fill + rect_width fill \<and>
     rect_x prog = rect_x fill \<and>
     rect_x stat = rect_x prog + rect_width prog + pad \<and>
     rect_x nam = rect_x stat + rect_width stat + pad)"

definition same_rows :: "gdk_rectangle \<Rightarrow> gdk_rectangle \<Rightarrow> bool" where
  "same_rows region area = (rect_y region = rect_y area \<and> rect_height region = rect_height area)"

definition regions_inside :: "compact_locals \<Rightarrow> bool" where
  "regions_inside l =
    (rect_inside (icon_area l) (fill_area l) \<and> rect_inside (name_area l) (fill_area l) \<and>
     rect_inside (prog_area l) (fill_area l) \<and> rect_inside (stat_area l) (fill_area l))"

subsection \<open>The recolouring of the progress bar\<close>

text \<open>
  The steps that the specification lists for \<^verbatim>\<open>render_progress_bar\<close>, each as the calls
  it stands for. The indicator is drawn at the origin of a surface of its own, so the
  steps on that surface work on the area moved to the origin.
\<close>

definition at_origin :: "gdk_rectangle \<Rightarrow> gdk_rectangle" where
  "at_origin area = \<lparr>rect_x = 0, rect_y = 0, rect_width = rect_width area, rect_height = rect_height area\<rparr>"

definition output_context :: "env \<Rightarrow> SnapshotPtr \<Rightarrow> gdk_rectangle \<Rightarrow> cairo_context" where
  "output_context e snapshot area =
    (if gtkmm4 e then Appended_context snapshot area else Snapshot_context snapshot)"

definition background_surface :: "env \<Rightarrow> SnapshotPtr \<Rightarrow> gdk_rectangle \<Rightarrow> cairo_surface" where
  "background_surface e snapshot area =
    (if gtkmm4 e then Target_of (Appended_context snapshot area)
     else Sub_surface (Target_of (Snapshot_context snapshot))
            (rect_x area) (rect_y area) (rect_width area) (rect_height area))"

definition whole :: "cairo_context \<Rightarrow> gdk_rectangle \<Rightarrow> gfx_call" where
  "whole c area =
    Cairo_rectangle c (real_of_int (rect_x area)) (real_of_int (rect_y area))
      (real_of_int (rect_width area)) (real_of_int (rect_height area))"

definition draw_indicator ::
  "env \<Rightarrow> Impl \<Rightarrow> SnapshotPtr \<Rightarrow> gtk_widget \<Rightarrow> gdk_rectangle \<Rightarrow> cell_renderer_state set \<Rightarrow> gfx_call list" where
  "draw_indicator e impl snapshot widget area flags =
    [ImageSurface_create Temp_surface FORMAT_ARGB32 (rect_width area) (rect_height area),
     Context_create Temp_context Temp_surface] @
    (if gtkmm4 e then
       [Snapshot_create,
        Render_progress (progress_renderer impl) To_temp_snapshot widget (at_origin area) (at_origin area) flags,
        Snapshot_free_to_node_draw Temp_context,
        Snapshot_append_cairo snapshot area]
     else
       [Render_progress (progress_renderer impl) To_temp_context widget (at_origin area) (at_origin area) flags])"

definition build_mask :: "gdk_rectangle \<Rightarrow> gfx_call list" where
  "build_mask area =
    [ImageSurface_create Mask_surface FORMAT_A8 (rect_width area) (rect_height area),
     Context_create Mask_context Mask_surface,
     Cairo_set_source_rgb Mask_context 0 0 0,
     whole Mask_context (at_origin area),
     Cairo_fill Mask_context,
     Cairo_set_operator Mask_context OPERATOR_CLEAR,
     Cairo_mask Mask_context Temp_surface 0 0,
     Cairo_fill Mask_context]"

definition composite_background :: "env \<Rightarrow> SnapshotPtr \<Rightarrow> gdk_rectangle \<Rightarrow> gfx_call list" where
  "composite_background e snapshot area =
    [Cairo_set_source Temp_context (background_surface e snapshot area)
       (fst (device_to_user e (output_context e snapshot area) (0, 0)) - real_of_int (rect_x area))
       (snd (device_to_user e (output_context e snapshot area) (0, 0)) - real_of_int (rect_y area)),
     Cairo_set_operator Temp_context OPERATOR_DEST_OVER,
     whole Temp_context (at_origin area),
     Cairo_fill Temp_context]"

definition paint_color :: "env \<Rightarrow> gdk_rgba \<Rightarrow> gdk_rectangle \<Rightarrow> gfx_call list" where
  "paint_color e color area =
    [Cairo_set_source_rgb Temp_context (get_red e color) (get_green e color) (get_blue e color),
     Cairo_set_operator Temp_context OPERATOR_HSL_COLOR,
     whole Temp_context (at_origin area),
     Cairo_fill Temp_context]"

definition clear_masked :: "gfx_call list" where
  "clear_masked =
    [Cairo_set_operator Temp_context OPERATOR_CLEAR,
     Cairo_mask Temp_context Mask_surface 0 0,
     Cairo_fill Temp_context]"

definition copy_to_output :: "env \<Rightarrow> SnapshotPtr \<Rightarrow> gdk_rectangle \<Rightarrow> gfx_call list" where
  "copy_to_output e snapshot area =
    [Cairo_set_source (output_context e snapshot area) Temp_surface
       (real_of_int (rect_x area)) (real_of_int (rect_y area)),
     whole (output_context e snapshot area) area,
     Cairo_fill (output_context e snapshot area)]"

subsection \<open>What a row shows\<close>

text \<open>
  The icons, the texts and the progress bars (value and label) among the drawing calls,
  in the order drawn.
\<close>

fun drawn_icon :: "gfx_call \<Rightarrow> string option" where
  "drawn_icon (Render_icon props target widget background_area cell_area flags) = Some (pixbuf_gicon props)"
| "drawn_icon _ = None"

fun drawn_text :: "gfx_call \<Rightarrow> string option" where
  "drawn_text (Render_text props target widget background_area cell_area flags) = Some (text_text props)"
| "drawn_text _ = None"

fun drawn_bar :: "gfx_call \<Rightarrow> (int \<times> string) option" where
  "drawn_bar (Render_progress props target widget background_area cell_area flags) =
     Some (progress_value props, progress_text props)"
| "drawn_bar _ = None"

definition drawn_icons :: "gfx_call list \<Rightarrow> string list" where
  "drawn_icons calls = List.map_filter drawn_icon calls"

definition drawn_texts :: "gfx_call list \<Rightarrow> string list" where
  "drawn_texts calls = List.map_filter drawn_text calls"

definition drawn_bars :: "gfx_call list \<Rightarrow> (int \<times> string) list" where
  "drawn_bars calls = List.map_filter drawn_bar calls"

definition calls_of :: "error + (Impl \<times> gfx_call list) \<Rightarrow> gfx_call list" where
  "calls_of r = (case r of Inl err \<Rightarrow> [] | Inr (impl', calls) \<Rightarrow> calls)"

text \<open>
  The row that the specification describes for both modes: an icon, the name, a
  progress bar, a status string (the short one or the full one) and the progress string.
\<close>

definition shows_status_string :: "env \<Rightarrow> Impl \<Rightarrow> tr_torrent \<Rightarrow> gfx_call list \<Rightarrow> bool" where
  "shows_status_string e impl tor calls =
    (getShortStatusString e tor (tr_torrentStatCached tor) (upload_speed_KBps impl) (download_speed_KBps impl)
       \<in> set (drawn_texts calls) \<or>
     getStatusString e tor (tr_torrentStatCached tor) (upload_speed_KBps impl) (download_speed_KBps impl) False
       \<in> Inr ` set (drawn_texts calls))"

definition shows_progress_string :: "env \<Rightarrow> tr_torrent \<Rightarrow> gfx_call list \<Rightarrow> bool" where
  "shows_progress_string e tor calls =
    (getProgressString e tor (tr_torrentTotalSize tor) (tr_torrentStatCached tor) \<in> set (drawn_texts calls))"

definition status_row_complete :: "env \<Rightarrow> Impl \<Rightarrow> tr_torrent \<Rightarrow> gfx_call list \<Rightarrow> bool" where
  "status_row_complete e impl tor calls =
    (get_icon e tor \<in> set (drawn_icons calls) \<and>
     tr_torrentName tor \<in> set (drawn_texts calls) \<and>
     drawn_bars calls \<noteq> [] \<and>
     shows_status_string e impl tor calls \<and>
     shows_progress_string e tor calls)"

definition percent_label :: "tr_torrent \<Rightarrow> int" where
  "percent_label tor =
    static_cast_int (fst (get_percent_done tor (tr_torrentStatCached tor)) * 100)"

definition full_impl :: Impl where
  "full_impl = plain_impl\<lparr>compact := False\<rparr>"

definition bar_area :: gdk_rectangle where
  "bar_area = \<lparr>rect_x = 248, rect_y = 1, rect_width = 50, rect_height = 18\<rparr>"

subsection \<open>What the renderer is given\<close>

text \<open>
  The data supplied to the renderer: the torrent, with its statistics snapshot, and the
  two speeds.
\<close>

definition supplied_data :: "Impl \<Rightarrow> tr_torrent option \<times> real \<times> real" where
  "supplied_data impl = (torrent impl, upload_speed_KBps impl, download_speed_KBps impl)"

subsection \<open>The range of int\<close>

text \<open>
  A rectangle whose four fields are values of \<^verbatim>\<open>int\<close>, and the condition that the
  layout arithmetic of a compact row stays in the range of \<^verbatim>\<open>int\<close>: the fill area, the
  width left for the name, and the positions computed for the direction at hand,
  taken as exact integers.
\<close>

definition rect_range :: "gdk_rectangle \<Rightarrow> bool" where
  "rect_range r =
    (int_range (rect_x r) \<and> int_range (rect_y r) \<and> int_range (rect_width r) \<and> int_range (rect_height r))"

definition compact_in_range :: "int \<Rightarrow> bool \<Rightarrow> gdk_rectangle \<Rightarrow> int \<Rightarrow> int \<Rightarrow> bool" where
  "compact_in_range pad rtl fill icon_width stat_width =
    (rect_range fill \<and>
     int_range (rect_width fill - icon_width - stat_width - 50 - 3 * pad) \<and>
     (if rtl then
        int_range (rect_x fill + rect_width fill - icon_width) \<and>
        int_range (rect_x fill + 50 + pad) \<and>
        int_range (rect_x fill + 50 + pad + stat_width + pad)
      else
        int_range (rect_x fill + rect_width fill - 50) \<and>
        int_range (rect_x fill + rect_width fill - 50 - stat_width - pad) \<and>
        int_range (rect_x fill + icon_width + pad)))"

text \<open>A renderer whose bar height is the largest \<^verbatim>\<open>int\<close>.\<close>

definition tall_impl :: Impl where
  "tall_impl = plain_impl\<lparr>bar_height := 2147483647\<rparr>"

section \<open>Theorems\<close>

subsection \<open>Arithmetic on 32 bits\<close>

text \<open>
  A value in the range of \<^verbatim>\<open>int\<close> is kept by \<open>int32\<close>, every result of \<open>int32\<close>
  is in that range, and reducing the operands of a sum, a difference or a product
  first does not change the reduced result.
\<close>

lemma int32_id: "int_range x \<Longrightarrow> int32 x = x"
  by (simp add: int32_def int_range_def)

lemma int32_range: "int_range (int32 x)"
  by (simp add: int32_def int_range_def)

lemma int32_mod: "int32 a mod 4294967296 = a mod 4294967296"
proof -
  have "int32 a mod 4294967296 = ((a + 2147483648) mod 4294967296 - 2147483648) mod 4294967296"
    by (simp only: int32_def)
  also have "\<dots> = (a + 2147483648 - 2147483648) mod 4294967296"
    by (rule mod_diff_left_eq)
  finally show ?thesis by simp
qed

lemma int32_cong: "x mod 4294967296 = y mod 4294967296 \<Longrightarrow> int32 x = int32 y"
proof -
  assume h: "x mod 4294967296 = y mod 4294967296"
  have "(x + 2147483648) mod 4294967296 = (x mod 4294967296 + 2147483648) mod 4294967296"
    by (rule mod_add_left_eq [symmetric])
  also have "\<dots> = (y mod 4294967296 + 2147483648) mod 4294967296"
    by (simp only: h)
  also have "\<dots> = (y + 2147483648) mod 4294967296"
    by (rule mod_add_left_eq)
  finally show ?thesis by (simp only: int32_def)
qed

lemma int32_arith:
  "int32 (int32 a + b) = int32 (a + b)"
  "int32 (a + int32 b) = int32 (a + b)"
  "int32 (int32 a - b) = int32 (a - b)"
  "int32 (a - int32 b) = int32 (a - b)"
  "int32 (int32 a * b) = int32 (a * b)"
  "int32 (a * int32 b) = int32 (a * b)"
proof -
  show "int32 (int32 a + b) = int32 (a + b)"
    by (rule int32_cong) (simp only: mod_add_left_eq [of "int32 a", symmetric] int32_mod mod_add_left_eq)
  show "int32 (a + int32 b) = int32 (a + b)"
    by (rule int32_cong) (simp only: mod_add_right_eq [of a "int32 b", symmetric] int32_mod mod_add_right_eq)
  show "int32 (int32 a - b) = int32 (a - b)"
    by (rule int32_cong) (simp only: mod_diff_left_eq [of "int32 a", symmetric] int32_mod mod_diff_left_eq)
  show "int32 (a - int32 b) = int32 (a - b)"
    by (rule int32_cong) (simp only: mod_diff_right_eq [of a "int32 b", symmetric] int32_mod mod_diff_right_eq)
  show "int32 (int32 a * b) = int32 (a * b)"
    by (rule int32_cong) (simp only: mod_mult_left_eq [of "int32 a", symmetric] int32_mod mod_mult_left_eq)
  show "int32 (a * int32 b) = int32 (a * b)"
    by (rule int32_cong) (simp only: mod_mult_right_eq [of a "int32 b", symmetric] int32_mod mod_mult_right_eq)
qed

subsection \<open>The progress string\<close>

lemma progress_format_cases:
  "getProgressString e tor total_size st =
     progress_message (progress_format_of tor total_size st) e tor total_size st @
     time_remaining_suffix e tor st"
  by (simp add: getProgressString_def progress_format_of_def isDone_spec_def isSeed_spec_def
      hasSeedRatio_spec_def time_remaining_suffix_def has_time_remaining_def time_remaining_def
      goal_arg_def Let_def)

text \<open>
  Claim C2. For every statistics snapshot, \<^verbatim>\<open>getProgressString\<close> is the message of
  exactly one of five formats, the one that \<open>isDone\<close>, \<open>isSeed\<close> and the presence of a
  seed ratio determine, followed by the time-remaining suffix. The suffix is there
  exactly when the torrent is downloading, or is seeding with a seed ratio set, and then
  it is \<^verbatim>\<open>" - "\<close> and either "Remaining time unknown" (negative \<open>eta\<close>) or the
  formatted time left.
\<close>

theorem getProgressString_formats:
  "getProgressString e tor total_size st =
     progress_message (progress_format_of tor total_size st) e tor total_size st @
     time_remaining_suffix e tor st
   \<and> (time_remaining_suffix e tor st = [] \<longleftrightarrow>
        \<not> (activity st = TR_STATUS_DOWNLOAD \<or> (tr_torrentGetSeedRatio tor \<noteq> None \<and> activity st = TR_STATUS_SEED)))
   \<and> (time_remaining_suffix e tor st \<noteq> [] \<longrightarrow>
        time_remaining_suffix e tor st =
          '' - '' @ (if eta st < 0 then gettext e ''Remaining time unknown'' else tr_format_time_left e (eta st)))"
  by (simp add: progress_format_cases)
     (simp add: time_remaining_suffix_def has_time_remaining_def time_remaining_def hasSeedRatio_spec_def)

theorem getProgressString_formats_witness:
  "getProgressString plain_env downloading_torrent 200 downloading_stat =
     ''50 B of 200 B (25%) - 90 seconds remaining''"
  by (simp add: getProgressString_formats [THEN conjunct1] progress_format_of_def isDone_spec_def
      time_remaining_suffix_def has_time_remaining_def time_remaining_def
      downloading_stat_def paused_stat_def plain_env_def fmt_subst_def show_fmt_value_def decimal.simps)

subsection \<open>Errors in the status string\<close>

text \<open>
  Claim C8. \<^verbatim>\<open>getErrorString\<close> returns a string if and only if the error of the snapshot
  is a tracker warning, a tracker error or a local error. Where \<^verbatim>\<open>getActivityString\<close>
  returns, \<^verbatim>\<open>getStatusString\<close> without \<open>ignore_errors\<close> starts with the error string in
  exactly these three cases and with the activity string otherwise; with
  \<open>ignore_errors\<close> it always starts with the activity string.
\<close>

theorem getErrorString_iff:
  "(getErrorString e st \<noteq> None \<longleftrightarrow>
      error st \<in> {TR_STAT_TRACKER_WARNING, TR_STAT_TRACKER_ERROR, TR_STAT_LOCAL_ERROR})
   \<and> (getActivityString e tor st up down = Inr activity_str \<longrightarrow>
        getStatusString e tor st up down False =
          Inr ((if error st \<in> {TR_STAT_TRACKER_WARNING, TR_STAT_TRACKER_ERROR, TR_STAT_LOCAL_ERROR}
                then the (getErrorString e st) else activity_str) @ transfer_suffix e tor st up down)
        \<and> getStatusString e tor st up down True = Inr (activity_str @ transfer_suffix e tor st up down))"
  by (cases "error st"; cases "activity st")
     (simp_all add: getErrorString_def getStatusString_def transfer_suffix_def Let_def)

theorem getErrorString_iff_witness:
  "getErrorString plain_env tracker_error_stat \<noteq> None \<and>
   getStatusString plain_env downloading_torrent tracker_error_stat 0 0 False =
     Inr (''Tracker Error: '' @ apostrophe @ ''timeout'' @ apostrophe @
          '' - 0 kB/s '' @ down_arrow @ ''  0 kB/s '' @ up_arrow) \<and>
   getStatusString plain_env downloading_torrent tracker_error_stat 0 0 True =
     Inr (''Downloading from 2 of 3 connected peers - 0 kB/s '' @ down_arrow @ ''  0 kB/s '' @ up_arrow)"
proof -
  have activity_str:
    "getActivityString plain_env downloading_torrent tracker_error_stat 0 0 =
       Inr ''Downloading from 2 of 3 connected peers''"
    by (simp add: getActivityString_def tracker_error_stat_def downloading_stat_def paused_stat_def
        downloading_torrent_def paused_torrent_def tr_torrentHasMetadata_def
        plain_env_def fmt_subst_def show_fmt_value_def decimal.simps)
  have suffix:
    "transfer_suffix plain_env downloading_torrent tracker_error_stat 0 0 =
       '' - 0 kB/s '' @ down_arrow @ ''  0 kB/s '' @ up_arrow"
    by (simp add: transfer_suffix_def getShortTransferString_def tracker_error_stat_def
        downloading_stat_def paused_stat_def downloading_torrent_def paused_torrent_def
        tr_torrentHasMetadata_def down_arrow_def up_arrow_def
        plain_env_def fmt_subst_def show_fmt_value_def decimal.simps)
  have err: "error tracker_error_stat = TR_STAT_TRACKER_ERROR"
    by (simp add: tracker_error_stat_def)
  have error_str:
    "the (getErrorString plain_env tracker_error_stat) =
       ''Tracker Error: '' @ apostrophe @ ''timeout'' @ apostrophe"
    by (simp add: getErrorString_def tracker_error_stat_def plain_env_def fmt_subst_def apostrophe_def
        show_fmt_value_def)
  show ?thesis
    using getErrorString_iff [of plain_env tracker_error_stat downloading_torrent 0 0
        "''Downloading from 2 of 3 connected peers''"] activity_str suffix err error_str
    by simp
qed

subsection \<open>Percentage and colour of the progress bar\<close>

text \<open>
  Claim C10. \<^verbatim>\<open>get_percent_done\<close> returns the seed-ratio percentage, but at least 0,
  and reports a seed when the torrent is seeding and has a seed ratio set; otherwise it
  returns the percentage done, but at least 0, and reports no seed. The value is never
  negative. The colour of the bar depends on the activity alone: steelblue when
  downloading, forestgreen when seeding, silver in every other case.
\<close>

theorem get_percent_done_color:
  "get_percent_done tor st =
     (if activity st = TR_STATUS_SEED \<and> tr_torrentGetSeedRatio tor \<noteq> None
      then (max 0 (seedRatioPercentDone st), True)
      else (max 0 (percentDone st), False))
   \<and> 0 \<le> fst (get_percent_done tor st)
   \<and> get_progress_bar_color st =
       (case activity st of
          TR_STATUS_DOWNLOAD \<Rightarrow> RGBA ''steelblue''
        | TR_STATUS_SEED \<Rightarrow> RGBA ''forestgreen''
        | _ \<Rightarrow> RGBA ''silver'')"
  by (simp add: get_percent_done_def MAX_macro_def get_progress_bar_color_def max_def
      split: tr_torrent_activity.split)

theorem get_percent_done_color_witness:
  "get_percent_done paused_torrent paused_stat = (1 / 4, False) \<and>
   get_progress_bar_color paused_stat = RGBA ''silver'' \<and>
   get_progress_bar_color downloading_stat = RGBA ''steelblue''"
  using get_percent_done_color [of paused_torrent paused_stat]
    get_percent_done_color [of downloading_torrent downloading_stat]
  by (simp add: paused_stat_def downloading_stat_def)

subsection \<open>Errors of the operations\<close>

lemma getActivityString_error:
  "getActivityString e tor st up down = Inl err \<Longrightarrow> err = AssertNotReached"
  by (cases "activity st") (auto simp: getActivityString_def split: if_splits)

lemma getStatusString_error:
  "getStatusString e tor st up down ignore_errors = Inl err \<Longrightarrow> err = AssertNotReached"
  by (auto simp: getStatusString_def Let_def split: sum.splits if_splits dest: getActivityString_error)

lemma get_size_full_error:
  "get_size_full e impl widget = Inl err \<Longrightarrow> torrent impl \<noteq> None \<Longrightarrow> err = AssertNotReached"
  by (auto simp: get_size_full_def Let_def split: option.splits sum.splits dest: getStatusString_error)

lemma get_size_compact_error:
  "torrent impl \<noteq> None \<Longrightarrow> get_size_compact e impl widget \<noteq> Inl err"
  by (auto simp: get_size_compact_def Let_def split: option.splits)

lemma render_compact_error:
  "torrent impl \<noteq> None \<Longrightarrow> render_compact e impl snapshot widget background_area flags \<noteq> Inl err"
  by (auto simp: render_compact_def Let_def split: option.splits)

lemma render_full_error:
  "render_full e impl snapshot widget background_area flags = Inl err \<Longrightarrow> torrent impl \<noteq> None \<Longrightarrow>
   err = AssertNotReached"
  by (auto simp: render_full_def Let_def split: option.splits sum.splits prod.splits
      dest: getStatusString_error)

subsection \<open>The virtual functions\<close>

lemma width_vfunc_via:
  "torrent impl \<noteq> None \<Longrightarrow>
   get_preferred_width_vfunc e impl widget out =
     width_via (if compact impl then get_size_compact e impl widget else get_size_full e impl widget)"
  by (cases out) (simp add: get_preferred_width_vfunc_def width_via_def)

lemma height_vfunc_via:
  "torrent impl \<noteq> None \<Longrightarrow>
   get_preferred_height_vfunc e impl widget out =
     height_via (if compact impl then get_size_compact e impl widget else get_size_full e impl widget)"
  by (cases out) (simp add: get_preferred_height_vfunc_def height_via_def)

text \<open>
  Claim C1, as amended. For every size request and every render request on a renderer
  whose torrent is not null, the renderer works in the one mode that \<open>compact\<close>
  selects: if \<open>compact\<close> is true, the two size functions report the sizes of
  \<^verbatim>\<open>get_size_compact\<close> and the render function draws what \<^verbatim>\<open>render_compact\<close> draws;
  if it is false, they use \<^verbatim>\<open>get_size_full\<close> and \<^verbatim>\<open>render_full\<close>.
\<close>

theorem mode_selection:
  "torrent impl \<noteq> None \<Longrightarrow>
   mode_selected_by_compact e impl snapshot widget background_area cell_area flags out"
  by (simp add: mode_selected_by_compact_def width_vfunc_via height_vfunc_via render_vfunc_def)

theorem mode_selection_witness:
  "torrent plain_impl \<noteq> None \<and> compact plain_impl \<and>
   mode_selected_by_compact plain_env plain_impl (SnapshotPtr 0) ltr_widget row_area row_area {} (0, 0) \<and>
   torrent full_impl \<noteq> None \<and> \<not> compact full_impl \<and>
   mode_selected_by_compact plain_env full_impl (SnapshotPtr 0) ltr_widget row_area row_area {} (0, 0)"
  using mode_selection [of plain_impl plain_env "SnapshotPtr 0" ltr_widget row_area row_area "{}" "(0, 0)"]
    mode_selection [of full_impl plain_env "SnapshotPtr 0" ltr_widget row_area row_area "{}" "(0, 0)"]
  by (simp add: plain_impl_def full_impl_def)

text \<open>
  Claim C1, as stated, fails for a request on a renderer without a torrent: with
  \<open>compact\<close> true, the size functions do not go through \<^verbatim>\<open>get_size_compact\<close> (which
  would read through the null pointer) but leave the caller's variables as they are.
\<close>

theorem mode_selection_counterexample:
  "\<not> mode_selected_by_compact plain_env null_impl (SnapshotPtr 0) ltr_widget row_area row_area {} (1, 2)"
  by (simp add: mode_selected_by_compact_def null_impl_def plain_impl_def get_preferred_width_vfunc_def
      get_size_compact_def width_via_def)

lemma width_vfunc_no_null:
  "get_preferred_width_vfunc e impl widget out \<noteq> Inl NullPointerDereference"
proof (cases "torrent impl")
  case None
  then show ?thesis by (cases out) (simp add: get_preferred_width_vfunc_def)
next
  case (Some tor)
  then have t: "torrent impl \<noteq> None" by simp
  show ?thesis
    using get_size_compact_error [OF t, of e widget NullPointerDereference]
      get_size_full_error [of e impl widget NullPointerDereference] t
    by (auto simp: width_vfunc_via [OF t] width_via_def split: sum.splits if_splits)
qed

lemma height_vfunc_no_null:
  "get_preferred_height_vfunc e impl widget out \<noteq> Inl NullPointerDereference"
proof (cases "torrent impl")
  case None
  then show ?thesis by (cases out) (simp add: get_preferred_height_vfunc_def)
next
  case (Some tor)
  then have t: "torrent impl \<noteq> None" by simp
  show ?thesis
    using get_size_compact_error [OF t, of e widget NullPointerDereference]
      get_size_full_error [of e impl widget NullPointerDereference] t
    by (auto simp: height_vfunc_via [OF t] height_via_def split: sum.splits if_splits)
qed

lemma render_vfunc_no_null:
  "render_vfunc e impl snapshot widget background_area cell_area flags \<noteq> Inl NullPointerDereference"
proof (cases "torrent impl")
  case None
  then show ?thesis by (simp add: render_vfunc_def)
next
  case (Some tor)
  then have t: "torrent impl \<noteq> None" by simp
  show ?thesis
    using render_compact_error [OF t, of e snapshot widget background_area flags NullPointerDereference]
      render_full_error [of e impl snapshot widget background_area flags NullPointerDereference] t
    by (auto simp: render_vfunc_def)
qed

text \<open>
  Claim C9. When the torrent is null, \<^verbatim>\<open>get_preferred_width_vfunc\<close> and
  \<^verbatim>\<open>get_preferred_height_vfunc\<close> leave the caller's minimum and natural values and the
  renderer as they are, and the render function draws nothing. None of the three ever
  reads through a null torrent pointer, whatever the state of the renderer.
\<close>

theorem null_torrent:
  "(torrent impl = None \<longrightarrow>
      get_preferred_width_vfunc e impl widget (minimum, natural) = Inr (impl, minimum, natural) \<and>
      get_preferred_height_vfunc e impl widget (minimum, natural) = Inr (impl, minimum, natural) \<and>
      render_vfunc e impl snapshot widget background_area cell_area flags = Inr (impl, []))
   \<and> get_preferred_width_vfunc e impl widget out \<noteq> Inl NullPointerDereference
   \<and> get_preferred_height_vfunc e impl widget out \<noteq> Inl NullPointerDereference
   \<and> render_vfunc e impl snapshot widget background_area cell_area flags \<noteq> Inl NullPointerDereference"
  by (simp add: width_vfunc_no_null height_vfunc_no_null render_vfunc_no_null)
     (simp add: get_preferred_width_vfunc_def get_preferred_height_vfunc_def render_vfunc_def)

theorem null_torrent_witness:
  "torrent null_impl = None \<and>
   get_preferred_width_vfunc plain_env null_impl ltr_widget (1, 2) = Inr (null_impl, 1, 2) \<and>
   get_preferred_height_vfunc plain_env null_impl ltr_widget (1, 2) = Inr (null_impl, 1, 2) \<and>
   render_vfunc plain_env null_impl (SnapshotPtr 0) ltr_widget row_area row_area {} = Inr (null_impl, [])"
  using null_torrent [of null_impl plain_env ltr_widget 1 2 "SnapshotPtr 0" row_area row_area "{}" "(1, 2)"]
  by (simp add: null_impl_def)

subsection \<open>The negotiated size\<close>

lemma get_size_compact_sizes:
  "torrent impl = Some tor \<Longrightarrow>
   sizes_of (get_size_compact e impl widget) =
     Inr (int32 (compact_width e impl tor widget), int32 (compact_height e impl tor widget))"
  by (simp add: get_size_compact_def sizes_of_def Let_def compact_width_def compact_height_def
      icon_natural_size_def text_natural_size_def compact_stat_props_def compact_name_props_def
      REQ_WIDTH_def REQ_HEIGHT_def CompactBarWidth_def mult.commute [of _ "2::int"])

lemma get_size_full_sizes:
  "torrent impl = Some tor \<Longrightarrow>
   getStatusString e tor (tr_torrentStatCached tor) (upload_speed_KBps impl) (download_speed_KBps impl) True
     = Inr gstr_stat \<Longrightarrow>
   sizes_of (get_size_full e impl widget) =
     Inr (int32 (full_width e impl tor widget gstr_stat), int32 (full_height e impl tor widget gstr_stat))"
  by (simp add: get_size_full_def sizes_of_def Let_def full_width_def full_height_def
      icon_natural_size_def text_natural_size_def full_stat_props_def full_prog_props_def full_name_props_def
      REQ_WIDTH_def REQ_HEIGHT_def mult.commute [of _ "2::int"])

lemma sizes_of_width_via:
  "sizes_of (width_via r) = (case sizes_of r of Inl err \<Rightarrow> Inl err | Inr (w, h) \<Rightarrow> Inr (w, w))"
  by (auto simp: sizes_of_def width_via_def split: sum.splits)

lemma sizes_of_height_via:
  "sizes_of (height_via r) = (case sizes_of r of Inl err \<Rightarrow> Inl err | Inr (w, h) \<Rightarrow> Inr (h, h))"
  by (auto simp: sizes_of_def height_via_def split: sum.splits)

text \<open>
  Claim C4. The negotiated size of a cell is fixed arithmetic over the natural sizes of
  the child renderers, computed on \<^verbatim>\<open>int\<close>. In compact mode the width is twice the
  horizontal padding, the icon width, a pad, the bar width of 50, a pad and the width of
  the short status; the height is twice the vertical padding and the larger of the name
  height and the bar height. In full mode the width is twice the padding, the icon
  width, a pad and the larger of the widths of the progress string and the status
  string; the height is twice the padding and the heights of the name and the progress
  string, a small pad, the bar height, a small pad and the height of the status string.
  In both modes the minimum reported is the natural size reported. The value reported
  is the sum reduced to 32 bits, which is the sum itself whenever the sum is in the range
  of \<^verbatim>\<open>int\<close>. (In full mode the status string is that of \<^verbatim>\<open>getStatusString\<close> with
  errors ignored, where it returns.)
\<close>

theorem size_arithmetic:
  assumes "torrent impl = Some tor"
  shows
   "sizes_of (get_size_compact e impl widget) =
      Inr (int32 (compact_width e impl tor widget), int32 (compact_height e impl tor widget))
    \<and> (compact impl \<longrightarrow>
         sizes_of (get_preferred_width_vfunc e impl widget out) =
           Inr (int32 (compact_width e impl tor widget), int32 (compact_width e impl tor widget)) \<and>
         sizes_of (get_preferred_height_vfunc e impl widget out) =
           Inr (int32 (compact_height e impl tor widget), int32 (compact_height e impl tor widget)))
    \<and> (getStatusString e tor (tr_torrentStatCached tor) (upload_speed_KBps impl) (download_speed_KBps impl) True
          = Inr gstr_stat \<longrightarrow>
         sizes_of (get_size_full e impl widget) =
           Inr (int32 (full_width e impl tor widget gstr_stat), int32 (full_height e impl tor widget gstr_stat)) \<and>
         (\<not> compact impl \<longrightarrow>
           sizes_of (get_preferred_width_vfunc e impl widget out) =
             Inr (int32 (full_width e impl tor widget gstr_stat), int32 (full_width e impl tor widget gstr_stat)) \<and>
           sizes_of (get_preferred_height_vfunc e impl widget out) =
             Inr (int32 (full_height e impl tor widget gstr_stat), int32 (full_height e impl tor widget gstr_stat))))
    \<and> (int_range (compact_width e impl tor widget) \<longrightarrow>
         int32 (compact_width e impl tor widget) = compact_width e impl tor widget)
    \<and> (int_range (compact_height e impl tor widget) \<longrightarrow>
         int32 (compact_height e impl tor widget) = compact_height e impl tor widget)
    \<and> (int_range (full_width e impl tor widget gstr_stat) \<longrightarrow>
         int32 (full_width e impl tor widget gstr_stat) = full_width e impl tor widget gstr_stat)
    \<and> (int_range (full_height e impl tor widget gstr_stat) \<longrightarrow>
         int32 (full_height e impl tor widget gstr_stat) = full_height e impl tor widget gstr_stat)"
  using assms
  by (simp add: width_vfunc_via height_vfunc_via sizes_of_width_via sizes_of_height_via
      get_size_compact_sizes get_size_full_sizes int32_id)

theorem size_arithmetic_witness:
  "sizes_of (get_size_compact plain_env plain_impl ltr_widget) = Inr (130, 18) \<and>
   sizes_of (get_preferred_width_vfunc plain_env plain_impl ltr_widget (0, 0)) = Inr (130, 130) \<and>
   sizes_of (get_preferred_height_vfunc plain_env plain_impl ltr_widget (0, 0)) = Inr (18, 18) \<and>
   sizes_of (get_size_full plain_env full_impl ltr_widget) = Inr (178, 70) \<and>
   sizes_of (get_preferred_width_vfunc plain_env full_impl ltr_widget (0, 0)) = Inr (178, 178) \<and>
   sizes_of (get_preferred_height_vfunc plain_env full_impl ltr_widget (0, 0)) = Inr (70, 70)"
proof -
  have t: "torrent plain_impl = Some paused_torrent" and t': "torrent full_impl = Some paused_torrent"
    by (simp_all add: plain_impl_def full_impl_def)
  have c: "compact plain_impl" and c': "\<not> compact full_impl"
    by (simp_all add: plain_impl_def full_impl_def)
  have s: "getStatusString plain_env paused_torrent (tr_torrentStatCached paused_torrent)
      (upload_speed_KBps full_impl) (download_speed_KBps full_impl) True = Inr ''Paused''"
    by (simp add: getStatusString_def getActivityString_def getShortStatusString_def
        tr_torrentStatCached_def paused_torrent_def paused_stat_def plain_env_def)
  have cw: "compact_width plain_env plain_impl paused_torrent ltr_widget = 130"
    by (simp add: compact_width_def icon_natural_size_def text_natural_size_def compact_stat_props_def
        getShortStatusString_def tr_torrentStatCached_def paused_torrent_def paused_stat_def
        plain_env_def plain_impl_def)
  have ch: "compact_height plain_env plain_impl paused_torrent ltr_widget = 18"
    by (simp add: compact_height_def text_natural_size_def plain_env_def plain_impl_def)
  have p: "getProgressString plain_env paused_torrent (tr_torrentTotalSize paused_torrent)
      (tr_torrentStatCached paused_torrent) = ''50 B of 200 B (25%)''"
    by (simp add: getProgressString_def tr_torrentStatCached_def tr_torrentTotalSize_def
        paused_torrent_def paused_stat_def plain_env_def fmt_subst_def show_fmt_value_def decimal.simps)
  have fw: "full_width plain_env full_impl paused_torrent ltr_widget ''Paused'' = 178"
    by (simp add: full_width_def icon_natural_size_def text_natural_size_def full_stat_props_def
        full_prog_props_def p)
       (simp add: plain_env_def plain_impl_def full_impl_def)
  have fh: "full_height plain_env full_impl paused_torrent ltr_widget ''Paused'' = 70"
    by (simp add: full_height_def text_natural_size_def plain_env_def plain_impl_def full_impl_def)
  have r: "int_range 130" "int_range 18" "int_range 178" "int_range 70"
    by (simp_all add: int_range_def)
  show ?thesis
    using size_arithmetic [OF t, of plain_env ltr_widget "(0, 0)" "''Paused''"]
      size_arithmetic [OF t', of plain_env ltr_widget "(0, 0)" "''Paused''"] c c' s cw ch fw fh r
    by simp
qed

text \<open>
  Outside that range the value wraps around: with a bar height of \<open>2147483647\<close> the
  height reported for the compact row is negative.
\<close>

lemma size_wraps_around:
  "sizes_of (get_size_compact plain_env tall_impl ltr_widget) = Inr (130, - 2147483647)"
proof -
  have t: "torrent tall_impl = Some paused_torrent"
    by (simp add: tall_impl_def plain_impl_def)
  have cw: "compact_width plain_env tall_impl paused_torrent ltr_widget = 130"
    by (simp add: compact_width_def icon_natural_size_def text_natural_size_def compact_stat_props_def
        getShortStatusString_def tr_torrentStatCached_def paused_torrent_def paused_stat_def
        plain_env_def plain_impl_def tall_impl_def)
  have ch: "compact_height plain_env tall_impl paused_torrent ltr_widget = 2147483649"
    by (simp add: compact_height_def text_natural_size_def plain_env_def plain_impl_def tall_impl_def)
  show ?thesis
    by (simp add: get_size_compact_sizes [OF t] cw ch int32_def)
qed

subsection \<open>The progress bar\<close>

text \<open>
  Claim C6. \<^verbatim>\<open>render_progress_bar\<close> recolours the progress indicator by a fixed sequence
  of steps: the progress renderer is drawn into a fresh ARGB32 surface of the size of the
  target area; an A8 mask surface of that size is filled black and then cleared through
  the indicator surface; the background surface is put underneath with the operator
  DEST_OVER; the whole area is painted with the red, green and blue of the activity
  colour with the operator HSL_COLOR; the masked areas are cleared again; and the result
  is copied to the output at the position of the target area. (The theorem is about the
  calls made, in their order; what Cairo does with the pixels is outside the file.)
\<close>

theorem progress_bar_pipeline:
  "render_progress_bar e impl snapshot widget area flags color =
     draw_indicator e impl snapshot widget area flags @
     build_mask area @
     composite_background e snapshot area @
     paint_color e color area @
     clear_masked @
     copy_to_output e snapshot area"
  by (cases "device_to_user e (output_context e snapshot area) (0, 0)")
     (simp add: render_progress_bar_def adjust_progress_bar_hue_def get_mask_surface_def get_target_def
      draw_indicator_def build_mask_def composite_background_def paint_color_def clear_masked_def
      copy_to_output_def whole_def at_origin_def output_context_def background_surface_def Let_def)

theorem progress_bar_pipeline_witness:
  "render_progress_bar plain_env plain_impl (SnapshotPtr 0) ltr_widget bar_area {} (RGBA ''steelblue'') =
    [ImageSurface_create Temp_surface FORMAT_ARGB32 50 18,
     Context_create Temp_context Temp_surface,
     Render_progress (progress_renderer plain_impl) To_temp_context ltr_widget
       \<lparr>rect_x = 0, rect_y = 0, rect_width = 50, rect_height = 18\<rparr>
       \<lparr>rect_x = 0, rect_y = 0, rect_width = 50, rect_height = 18\<rparr> {},
     ImageSurface_create Mask_surface FORMAT_A8 50 18,
     Context_create Mask_context Mask_surface,
     Cairo_set_source_rgb Mask_context 0 0 0,
     Cairo_rectangle Mask_context 0 0 50 18,
     Cairo_fill Mask_context,
     Cairo_set_operator Mask_context OPERATOR_CLEAR,
     Cairo_mask Mask_context Temp_surface 0 0,
     Cairo_fill Mask_context,
     Cairo_set_source Temp_context (Sub_surface (Target_of (Snapshot_context (SnapshotPtr 0))) 248 1 50 18)
       (- 248) (- 1),
     Cairo_set_operator Temp_context OPERATOR_DEST_OVER,
     Cairo_rectangle Temp_context 0 0 50 18,
     Cairo_fill Temp_context,
     Cairo_set_source_rgb Temp_context (70 / 255) (130 / 255) (180 / 255),
     Cairo_set_operator Temp_context OPERATOR_HSL_COLOR,
     Cairo_rectangle Temp_context 0 0 50 18,
     Cairo_fill Temp_context,
     Cairo_set_operator Temp_context OPERATOR_CLEAR,
     Cairo_mask Temp_context Mask_surface 0 0,
     Cairo_fill Temp_context,
     Cairo_set_source (Snapshot_context (SnapshotPtr 0)) Temp_surface 248 1,
     Cairo_rectangle (Snapshot_context (SnapshotPtr 0)) 248 1 50 18,
     Cairo_fill (Snapshot_context (SnapshotPtr 0))]"
  by (simp add: progress_bar_pipeline draw_indicator_def build_mask_def composite_background_def
      paint_color_def clear_masked_def copy_to_output_def whole_def at_origin_def output_context_def
      background_surface_def plain_env_def bar_area_def)

subsection \<open>What the rows show\<close>

lemma map_filter_append: "List.map_filter f (xs @ ys) = List.map_filter f xs @ List.map_filter f ys"
  by (simp add: List.map_filter_def)

lemma drawn_texts_append: "drawn_texts (xs @ ys) = drawn_texts xs @ drawn_texts ys"
  by (simp add: drawn_texts_def map_filter_append)

lemma drawn_icons_append: "drawn_icons (xs @ ys) = drawn_icons xs @ drawn_icons ys"
  by (simp add: drawn_icons_def map_filter_append)

lemma drawn_bars_append: "drawn_bars (xs @ ys) = drawn_bars xs @ drawn_bars ys"
  by (simp add: drawn_bars_def map_filter_append)

lemma drawn_Cons:
  "drawn_texts (c # cs) = (case drawn_text c of None \<Rightarrow> drawn_texts cs | Some s \<Rightarrow> s # drawn_texts cs)"
  "drawn_icons (c # cs) = (case drawn_icon c of None \<Rightarrow> drawn_icons cs | Some s \<Rightarrow> s # drawn_icons cs)"
  "drawn_bars (c # cs) = (case drawn_bar c of None \<Rightarrow> drawn_bars cs | Some s \<Rightarrow> s # drawn_bars cs)"
  "drawn_texts [] = []" "drawn_icons [] = []" "drawn_bars [] = []"
  by (simp_all add: drawn_texts_def drawn_icons_def drawn_bars_def split: option.split)

lemma progress_bar_drawn:
  "drawn_texts (render_progress_bar e impl snapshot widget area flags color) = []"
  "drawn_icons (render_progress_bar e impl snapshot widget area flags color) = []"
  "drawn_bars (render_progress_bar e impl snapshot widget area flags color) =
     [(progress_value (progress_renderer impl), progress_text (progress_renderer impl))]"
  by (simp_all add: render_progress_bar_def adjust_progress_bar_hue_def get_mask_surface_def Let_def
      split_def drawn_texts_append drawn_icons_append drawn_bars_append drawn_Cons)

lemma layout_locals:
  "icon_local (render_compact_layout e impl tor widget background_area flags) = get_icon e tor"
  "name_local (render_compact_layout e impl tor widget background_area flags) = tr_torrentName tor"
  "gstr_stat_local (render_compact_layout e impl tor widget background_area flags) =
     getShortStatusString e tor (tr_torrentStatCached tor) (upload_speed_KBps impl) (download_speed_KBps impl)"
  "percentDone_local (render_compact_layout e impl tor widget background_area flags) =
     fst (get_percent_done tor (tr_torrentStatCached tor))"
  "progress_color_local (render_compact_layout e impl tor widget background_area flags) =
     get_progress_bar_color (tr_torrentStatCached tor)"
  by (simp_all add: render_compact_layout_def Let_def split_def)

lemma render_compact_drawn:
  assumes "torrent impl = Some tor"
  shows "drawn_icons (calls_of (render_compact e impl snapshot widget background_area flags)) = [get_icon e tor]"
    and "drawn_texts (calls_of (render_compact e impl snapshot widget background_area flags)) =
      [getShortStatusString e tor (tr_torrentStatCached tor) (upload_speed_KBps impl) (download_speed_KBps impl),
       tr_torrentName tor]"
    and "drawn_bars (calls_of (render_compact e impl snapshot widget background_area flags)) =
      [(percent_label tor, fmt_format e ''{:d}%'' [positional (fmt_int (percent_label tor))])]"
  using assms
  by (simp_all add: render_compact_def calls_of_def Let_def drawn_texts_append drawn_icons_append
      drawn_bars_append drawn_Cons progress_bar_drawn layout_locals set_icon_def percent_label_def)

lemma render_full_drawn:
  assumes "torrent impl = Some tor"
    and "getStatusString e tor (tr_torrentStatCached tor) (upload_speed_KBps impl) (download_speed_KBps impl) False
      = Inr gstr_stat"
  shows "drawn_icons (calls_of (render_full e impl snapshot widget background_area flags)) = [get_icon e tor]"
    and "drawn_texts (calls_of (render_full e impl snapshot widget background_area flags)) =
      [tr_torrentName tor,
       getProgressString e tor (tr_torrentTotalSize tor) (tr_torrentStatCached tor),
       gstr_stat]"
    and "drawn_bars (calls_of (render_full e impl snapshot widget background_area flags)) =
      [(percent_label tor, [])]"
  using assms
  by (simp_all add: render_full_def calls_of_def Let_def split_def drawn_texts_append drawn_icons_append
      drawn_bars_append drawn_Cons progress_bar_drawn set_icon_def percent_label_def)

lemma paused_progress_string:
  "getProgressString plain_env paused_torrent (tr_torrentTotalSize paused_torrent)
     (tr_torrentStatCached paused_torrent) = ''50 B of 200 B (25%)''"
  by (simp add: getProgressString_def tr_torrentStatCached_def tr_torrentTotalSize_def
      paused_torrent_def paused_stat_def plain_env_def fmt_subst_def show_fmt_value_def decimal.simps)

lemma paused_short_status:
  "getShortStatusString plain_env paused_torrent (tr_torrentStatCached paused_torrent) up down = ''Paused''"
  by (simp add: getShortStatusString_def tr_torrentStatCached_def paused_torrent_def paused_stat_def
      plain_env_def)

lemma paused_status:
  "getStatusString plain_env paused_torrent (tr_torrentStatCached paused_torrent) up down ignore_errors
     = Inr ''Paused''"
  by (simp add: getStatusString_def getActivityString_def getErrorString_def getShortStatusString_def
      tr_torrentStatCached_def paused_torrent_def paused_stat_def plain_env_def)

lemma paused_percent_label: "percent_label paused_torrent = 25"
  by (simp add: percent_label_def get_percent_done_def MAX_macro_def static_cast_int_def
      tr_torrentStatCached_def paused_torrent_def paused_stat_def)

text \<open>
  Claim C7, as amended. In full mode the row drawn for a torrent comprises an icon, the
  torrent name, the progress string, a progress bar (without a label) and the status
  string, in this order. In compact mode it comprises an icon, a progress bar labelled
  with the percentage, the short status string and the torrent name, and these are all
  the texts drawn: there is no progress string in a compact row.
\<close>

theorem status_row_contents:
  assumes "torrent impl = Some tor"
    and "cc = calls_of (render_compact e impl snapshot widget background_area flags)"
    and "cf = calls_of (render_full e impl snapshot widget background_area flags)"
  shows
   "drawn_icons cc = [get_icon e tor]
    \<and> drawn_bars cc = [(percent_label tor, fmt_format e ''{:d}%'' [positional (fmt_int (percent_label tor))])]
    \<and> drawn_texts cc =
        [getShortStatusString e tor (tr_torrentStatCached tor) (upload_speed_KBps impl) (download_speed_KBps impl),
         tr_torrentName tor]
    \<and> (getStatusString e tor (tr_torrentStatCached tor) (upload_speed_KBps impl) (download_speed_KBps impl) False
          = Inr gstr_stat \<longrightarrow>
         drawn_icons cf = [get_icon e tor] \<and>
         drawn_texts cf =
           [tr_torrentName tor, getProgressString e tor (tr_torrentTotalSize tor) (tr_torrentStatCached tor),
            gstr_stat] \<and>
         drawn_bars cf = [(percent_label tor, [])] \<and>
         status_row_complete e impl tor cf)"
  using assms(1)
  by (simp add: assms(2,3) render_compact_drawn render_full_drawn status_row_complete_def
      shows_status_string_def shows_progress_string_def)

theorem status_row_contents_witness:
  "drawn_texts (calls_of (render_compact plain_env plain_impl (SnapshotPtr 0) ltr_widget row_area {})) =
     [''Paused'', ''a.iso''] \<and>
   drawn_bars (calls_of (render_compact plain_env plain_impl (SnapshotPtr 0) ltr_widget row_area {})) =
     [(25, ''25%'')] \<and>
   drawn_texts (calls_of (render_full plain_env plain_impl (SnapshotPtr 0) ltr_widget row_area {})) =
     [''a.iso'', ''50 B of 200 B (25%)'', ''Paused''] \<and>
   drawn_bars (calls_of (render_full plain_env plain_impl (SnapshotPtr 0) ltr_widget row_area {})) =
     [(25, [])] \<and>
   status_row_complete plain_env plain_impl paused_torrent
     (calls_of (render_full plain_env plain_impl (SnapshotPtr 0) ltr_widget row_area {}))"
proof -
  have t: "torrent plain_impl = Some paused_torrent"
    by (simp add: plain_impl_def)
  have n: "tr_torrentName paused_torrent = ''a.iso''"
    by (simp add: tr_torrentName_def paused_torrent_def)
  have l: "fmt_format plain_env ''{:d}%'' [positional (fmt_int 25)] = ''25%''"
    by (simp add: plain_env_def fmt_subst_def show_fmt_value_def decimal.simps)
  show ?thesis
    using status_row_contents [OF t refl refl, of plain_env "SnapshotPtr 0" ltr_widget row_area "{}" "''Paused''"]
    by (simp add: paused_status paused_short_status paused_progress_string paused_percent_label n l)
qed

text \<open>
  Claim C7, as stated, fails in compact mode: the row of the paused torrent shows the
  texts "Paused" and "a.iso" and a bar labelled "25%", and not its progress string
  "50 B of 200 B (25%)".
\<close>

theorem status_row_contents_counterexample:
  "\<not> status_row_complete plain_env plain_impl paused_torrent
       (calls_of (render_compact plain_env plain_impl (SnapshotPtr 0) ltr_widget row_area {}))"
proof -
  have t: "torrent plain_impl = Some paused_torrent"
    by (simp add: plain_impl_def)
  have "drawn_texts (calls_of (render_compact plain_env plain_impl (SnapshotPtr 0) ltr_widget row_area {})) =
      [''Paused'', ''a.iso'']"
    by (simp add: render_compact_drawn(2) [OF t] paused_short_status)
       (simp add: tr_torrentName_def paused_torrent_def)
  then show ?thesis
    by (simp add: status_row_complete_def shows_progress_string_def paused_progress_string)
qed

subsection \<open>The packing of the compact row\<close>

lemma layout_fill:
  "rect_range (padding_inset impl background_area) \<Longrightarrow>
   fill_area (render_compact_layout e impl tor widget background_area flags) = padding_inset impl background_area"
  by (simp add: render_compact_layout_def Let_def split_def padding_inset_def rect_range_def int32_id
      mult.commute [of _ "2::int"])

lemma layout_rows:
  "same_rows (icon_area (render_compact_layout e impl tor widget background_area flags))
     (fill_area (render_compact_layout e impl tor widget background_area flags))"
  "same_rows (prog_area (render_compact_layout e impl tor widget background_area flags))
     (fill_area (render_compact_layout e impl tor widget background_area flags))"
  "same_rows (stat_area (render_compact_layout e impl tor widget background_area flags))
     (fill_area (render_compact_layout e impl tor widget background_area flags))"
  "same_rows (name_area (render_compact_layout e impl tor widget background_area flags))
     (fill_area (render_compact_layout e impl tor widget background_area flags))"
  by (simp_all add: render_compact_layout_def Let_def split_def same_rows_def)

text \<open>The fields that the layout computes, in terms of the fill area and the widths.\<close>

lemma layout_widths:
  "rect_width (prog_area (render_compact_layout e impl tor widget background_area flags)) = 50"
  "rect_width (name_area (render_compact_layout e impl tor widget background_area flags)) =
     int32 (rect_width (fill_area (render_compact_layout e impl tor widget background_area flags))
       - rect_width (icon_area (render_compact_layout e impl tor widget background_area flags))
       - rect_width (stat_area (render_compact_layout e impl tor widget background_area flags))
       - 50 - 3 * GUI_PAD e)"
  by (simp_all add: render_compact_layout_def Let_def split_def CompactBarWidth_def
      mult.commute [of _ "3::int"])

lemma layout_ltr_x:
  assumes "DIR_RTL \<notin> get_state e widget (flags_local (render_compact_layout e impl tor widget background_area flags))"
  shows
    "rect_x (icon_area (render_compact_layout e impl tor widget background_area flags)) =
       rect_x (fill_area (render_compact_layout e impl tor widget background_area flags))"
    "rect_x (prog_area (render_compact_layout e impl tor widget background_area flags)) =
       int32 (rect_x (fill_area (render_compact_layout e impl tor widget background_area flags)) +
         rect_width (fill_area (render_compact_layout e impl tor widget background_area flags)) - 50)"
    "rect_x (stat_area (render_compact_layout e impl tor widget background_area flags)) =
       int32 (rect_x (prog_area (render_compact_layout e impl tor widget background_area flags)) -
         rect_width (stat_area (render_compact_layout e impl tor widget background_area flags)) - GUI_PAD e)"
    "rect_x (name_area (render_compact_layout e impl tor widget background_area flags)) =
       int32 (rect_x (fill_area (render_compact_layout e impl tor widget background_area flags)) +
         rect_width (icon_area (render_compact_layout e impl tor widget background_area flags)) + GUI_PAD e)"
  using assms
  by (simp_all add: render_compact_layout_def Let_def split_def CompactBarWidth_def)

lemma layout_rtl_x:
  assumes "DIR_RTL \<in> get_state e widget (flags_local (render_compact_layout e impl tor widget background_area flags))"
  shows
    "rect_x (icon_area (render_compact_layout e impl tor widget background_area flags)) =
       int32 (rect_x (fill_area (render_compact_layout e impl tor widget background_area flags)) +
         rect_width (fill_area (render_compact_layout e impl tor widget background_area flags)) -
         rect_width (icon_area (render_compact_layout e impl tor widget background_area flags)))"
    "rect_x (prog_area (render_compact_layout e impl tor widget background_area flags)) =
       rect_x (fill_area (render_compact_layout e impl tor widget background_area flags))"
    "rect_x (stat_area (render_compact_layout e impl tor widget background_area flags)) =
       int32 (rect_x (fill_area (render_compact_layout e impl tor widget background_area flags)) + 50 + GUI_PAD e)"
    "rect_x (name_area (render_compact_layout e impl tor widget background_area flags)) =
       int32 (rect_x (stat_area (render_compact_layout e impl tor widget background_area flags)) +
         rect_width (stat_area (render_compact_layout e impl tor widget background_area flags)) + GUI_PAD e)"
  using assms
  by (simp_all add: render_compact_layout_def Let_def split_def CompactBarWidth_def)

text \<open>With the width of the name as the file computes it, the two packings are mirror images.\<close>

lemma packed_rtl_mirror:
  "rect_width nam = rect_width fill - rect_width icon - rect_width stat - rect_width prog - 3 * pad \<Longrightarrow>
   packed_rtl pad fill icon prog stat nam \<Longrightarrow>
   packed_ltr pad fill (mirror_in fill icon) (mirror_in fill prog) (mirror_in fill stat) (mirror_in fill nam)"
  by (simp add: packed_rtl_def packed_ltr_def mirror_in_def)

lemma packed_inside:
  assumes "same_rows icon fill" "same_rows prog fill" "same_rows stat fill" "same_rows nam fill"
    and "rect_width nam = rect_width fill - rect_width icon - rect_width stat - rect_width prog - 3 * pad"
    and "0 \<le> pad" "0 \<le> rect_width icon" "0 \<le> rect_width stat" "0 \<le> rect_width prog" "0 \<le> rect_width nam"
    and "packed_ltr pad fill icon prog stat nam \<or> packed_rtl pad fill icon prog stat nam"
  shows "rect_inside icon fill \<and> rect_inside nam fill \<and> rect_inside prog fill \<and> rect_inside stat fill"
  using assms
  by (auto simp: packed_rtl_def packed_ltr_def same_rows_def rect_inside_def)

lemma render_compact_calls:
  assumes "torrent impl = Some tor"
  shows "\<exists>icon_r impl_p text_r.
    calls_of (render_compact e impl snapshot widget background_area flags) =
      Render_icon icon_r (To_snapshot snapshot) widget
        (icon_area (render_compact_layout e impl tor widget background_area flags))
        (icon_area (render_compact_layout e impl tor widget background_area flags))
        (flags_local (render_compact_layout e impl tor widget background_area flags)) #
      render_progress_bar e impl_p snapshot widget
        (prog_area (render_compact_layout e impl tor widget background_area flags))
        (flags_local (render_compact_layout e impl tor widget background_area flags))
        (get_progress_bar_color (tr_torrentStatCached tor)) @
      [Render_text text_r (To_snapshot snapshot) widget
        (stat_area (render_compact_layout e impl tor widget background_area flags))
        (stat_area (render_compact_layout e impl tor widget background_area flags))
        (flags_local (render_compact_layout e impl tor widget background_area flags)),
       Render_text (text_r\<lparr>text_text := tr_torrentName tor, text_scale := 1\<rparr>) (To_snapshot snapshot) widget
        (name_area (render_compact_layout e impl tor widget background_area flags))
        (name_area (render_compact_layout e impl tor widget background_area flags))
        (flags_local (render_compact_layout e impl tor widget background_area flags))]"
  using assms
  by (simp add: render_compact_def calls_of_def Let_def layout_locals) blast


text \<open>
  Claim C3, as amended. In compact mode, for every background area for which the layout
  arithmetic stays in the range of \<^verbatim>\<open>int\<close>, and both text directions, the four regions
  (icon, name, progress bar, status) are placed against the fill area, which is the
  background area without the padding, and they mirror between the two directions. All
  four have the rows of the fill area. Without the flag \<open>DIR_RTL\<close> the icon is at the
  left edge of the fill area, the progress bar at the right edge, the status left of the
  bar and a pad away from it, and the name a pad right of the icon; with \<open>DIR_RTL\<close>
  the icon is at the right edge, the bar at the left edge, the status a pad right of the
  bar and the name a pad right of the status, which is the mirror image of the other
  packing. In both cases the bar is 50 wide and the width of the name is the width of
  the fill area less the widths of icon, status and bar and three pads. The regions lie
  inside the fill area whenever that width of the name is not negative and neither are
  the pad and the widths of icon and status. These regions are the ones handed to the
  child renderers and to \<^verbatim>\<open>render_progress_bar\<close>.
\<close>

theorem compact_packing:
  assumes "torrent impl = Some tor"
    and "l = render_compact_layout e impl tor widget background_area flags"
    and "compact_in_range (GUI_PAD e) (DIR_RTL \<in> get_state e widget (flags_local l))
           (padding_inset impl background_area) (rect_width (icon_area l)) (rect_width (stat_area l))"
  shows
   "fill_area l = padding_inset impl background_area
    \<and> same_rows (icon_area l) (fill_area l) \<and> same_rows (name_area l) (fill_area l)
    \<and> same_rows (prog_area l) (fill_area l) \<and> same_rows (stat_area l) (fill_area l)
    \<and> rect_width (prog_area l) = 50
    \<and> rect_width (name_area l) =
        rect_width (fill_area l) - rect_width (icon_area l) - rect_width (stat_area l)
        - rect_width (prog_area l) - 3 * GUI_PAD e
    \<and> (DIR_RTL \<notin> get_state e widget (flags_local l) \<longrightarrow>
         packed_ltr (GUI_PAD e) (fill_area l) (icon_area l) (prog_area l) (stat_area l) (name_area l))
    \<and> (DIR_RTL \<in> get_state e widget (flags_local l) \<longrightarrow>
         packed_rtl (GUI_PAD e) (fill_area l) (icon_area l) (prog_area l) (stat_area l) (name_area l) \<and>
         packed_ltr (GUI_PAD e) (fill_area l) (mirror_in (fill_area l) (icon_area l))
           (mirror_in (fill_area l) (prog_area l)) (mirror_in (fill_area l) (stat_area l))
           (mirror_in (fill_area l) (name_area l)))
    \<and> (0 \<le> GUI_PAD e \<and> 0 \<le> rect_width (icon_area l) \<and> 0 \<le> rect_width (stat_area l) \<and>
        0 \<le> rect_width (name_area l) \<longrightarrow> regions_inside l)
    \<and> (\<exists>icon_r impl_p text_r.
         calls_of (render_compact e impl snapshot widget background_area flags) =
           Render_icon icon_r (To_snapshot snapshot) widget (icon_area l) (icon_area l) (flags_local l) #
           render_progress_bar e impl_p snapshot widget (prog_area l) (flags_local l)
             (get_progress_bar_color (tr_torrentStatCached tor)) @
           [Render_text text_r (To_snapshot snapshot) widget (stat_area l) (stat_area l) (flags_local l),
            Render_text (text_r\<lparr>text_text := tr_torrentName tor, text_scale := 1\<rparr>) (To_snapshot snapshot)
              widget (name_area l) (name_area l) (flags_local l)])"
proof -
  let ?f = "padding_inset impl background_area"
  let ?iw = "rect_width (icon_area l)"
  let ?sw = "rect_width (stat_area l)"
  let ?pad = "GUI_PAD e"
  have range: "rect_range ?f" "int_range (rect_width ?f - ?iw - ?sw - 50 - 3 * ?pad)"
    using assms(3) by (simp_all add: compact_in_range_def)
  have range_ltr: "int_range (rect_x ?f + rect_width ?f - 50)"
    "int_range (rect_x ?f + rect_width ?f - 50 - ?sw - ?pad)" "int_range (rect_x ?f + ?iw + ?pad)"
    if "DIR_RTL \<notin> get_state e widget (flags_local l)"
    using assms(3) that by (simp_all add: compact_in_range_def)
  have range_rtl: "int_range (rect_x ?f + rect_width ?f - ?iw)"
    "int_range (rect_x ?f + 50 + ?pad)" "int_range (rect_x ?f + 50 + ?pad + ?sw + ?pad)"
    if "DIR_RTL \<in> get_state e widget (flags_local l)"
    using assms(3) that by (simp_all add: compact_in_range_def)
  have f: "fill_area l = ?f"
    unfolding assms(2) by (rule layout_fill [OF range(1)])
  have rows: "same_rows (icon_area l) ?f" "same_rows (name_area l) ?f"
    "same_rows (prog_area l) ?f" "same_rows (stat_area l) ?f"
    using layout_rows [of e impl tor widget background_area flags] f
    by (simp_all add: assms(2))
  have wp: "rect_width (prog_area l) = 50"
    by (simp add: assms(2) layout_widths(1))
  have "rect_width (name_area l) = int32 (rect_width ?f - ?iw - ?sw - 50 - 3 * ?pad)"
    using layout_widths(2) [of e impl tor widget background_area flags] f
    by (simp add: assms(2))
  then have wn: "rect_width (name_area l) = rect_width ?f - ?iw - ?sw - rect_width (prog_area l) - 3 * ?pad"
    by (simp add: int32_id [OF range(2)] wp)
  have ltr: "packed_ltr ?pad ?f (icon_area l) (prog_area l) (stat_area l) (name_area l)"
    if d: "DIR_RTL \<notin> get_state e widget (flags_local l)"
  proof -
    have d': "DIR_RTL \<notin> get_state e widget
        (flags_local (render_compact_layout e impl tor widget background_area flags))"
      using d by (simp add: assms(2))
    have xi: "rect_x (icon_area l) = rect_x ?f"
      using layout_ltr_x(1) [OF d'] f by (simp add: assms(2))
    have "rect_x (prog_area l) = int32 (rect_x ?f + rect_width ?f - 50)"
      using layout_ltr_x(2) [OF d'] f by (simp add: assms(2))
    then have xp: "rect_x (prog_area l) = rect_x ?f + rect_width ?f - 50"
      by (simp add: int32_id [OF range_ltr(1) [OF d]])
    have "rect_x (stat_area l) = int32 (rect_x (prog_area l) - ?sw - ?pad)"
      using layout_ltr_x(3) [OF d'] by (simp add: assms(2))
    then have xs: "rect_x (stat_area l) = rect_x ?f + rect_width ?f - 50 - ?sw - ?pad"
      unfolding xp int32_id [OF range_ltr(2) [OF d]] .
    have "rect_x (name_area l) = int32 (rect_x ?f + ?iw + ?pad)"
      using layout_ltr_x(4) [OF d'] f by (simp add: assms(2))
    then have xn: "rect_x (name_area l) = rect_x ?f + ?iw + ?pad"
      by (simp add: int32_id [OF range_ltr(3) [OF d]])
    show ?thesis
      by (simp add: packed_ltr_def xi xp xs xn wp)
  qed
  have rtl: "packed_rtl ?pad ?f (icon_area l) (prog_area l) (stat_area l) (name_area l)"
    if d: "DIR_RTL \<in> get_state e widget (flags_local l)"
  proof -
    have d': "DIR_RTL \<in> get_state e widget
        (flags_local (render_compact_layout e impl tor widget background_area flags))"
      using d by (simp add: assms(2))
    have "rect_x (icon_area l) = int32 (rect_x ?f + rect_width ?f - ?iw)"
      using layout_rtl_x(1) [OF d'] f by (simp add: assms(2))
    then have xi: "rect_x (icon_area l) = rect_x ?f + rect_width ?f - ?iw"
      by (simp add: int32_id [OF range_rtl(1) [OF d]])
    have xp: "rect_x (prog_area l) = rect_x ?f"
      using layout_rtl_x(2) [OF d'] f by (simp add: assms(2))
    have "rect_x (stat_area l) = int32 (rect_x ?f + 50 + ?pad)"
      using layout_rtl_x(3) [OF d'] f by (simp add: assms(2))
    then have xs: "rect_x (stat_area l) = rect_x ?f + 50 + ?pad"
      by (simp add: int32_id [OF range_rtl(2) [OF d]])
    have "rect_x (name_area l) = int32 (rect_x (stat_area l) + ?sw + ?pad)"
      using layout_rtl_x(4) [OF d'] by (simp add: assms(2))
    then have xn: "rect_x (name_area l) = rect_x ?f + 50 + ?pad + ?sw + ?pad"
      unfolding xs int32_id [OF range_rtl(3) [OF d]] .
    show ?thesis
      by (simp add: packed_rtl_def xi xp xs xn wp)
  qed
  have mirror: "DIR_RTL \<in> get_state e widget (flags_local l) \<Longrightarrow>
      packed_ltr ?pad ?f (mirror_in ?f (icon_area l)) (mirror_in ?f (prog_area l))
        (mirror_in ?f (stat_area l)) (mirror_in ?f (name_area l))"
    by (rule packed_rtl_mirror [OF wn rtl])
  have inside: "regions_inside l"
    if "0 \<le> ?pad" "0 \<le> rect_width (icon_area l)" "0 \<le> rect_width (stat_area l)"
      "0 \<le> rect_width (name_area l)"
  proof -
    have "packed_ltr ?pad ?f (icon_area l) (prog_area l) (stat_area l) (name_area l) \<or>
        packed_rtl ?pad ?f (icon_area l) (prog_area l) (stat_area l) (name_area l)"
      using ltr rtl by blast
    moreover have "0 \<le> rect_width (prog_area l)"
      by (simp add: wp)
    ultimately show ?thesis
      using packed_inside [OF rows(1) rows(3) rows(4) rows(2) wn that(1) that(2) that(3) _ that(4)]
      by (simp add: regions_inside_def f)
  qed
  have calls: "\<exists>icon_r impl_p text_r.
      calls_of (render_compact e impl snapshot widget background_area flags) =
        Render_icon icon_r (To_snapshot snapshot) widget (icon_area l) (icon_area l) (flags_local l) #
        render_progress_bar e impl_p snapshot widget (prog_area l) (flags_local l)
          (get_progress_bar_color (tr_torrentStatCached tor)) @
        [Render_text text_r (To_snapshot snapshot) widget (stat_area l) (stat_area l) (flags_local l),
         Render_text (text_r\<lparr>text_text := tr_torrentName tor, text_scale := 1\<rparr>) (To_snapshot snapshot)
           widget (name_area l) (name_area l) (flags_local l)]"
    unfolding assms(2) by (rule render_compact_calls [OF assms(1)])
  show ?thesis
    using f rows wp wn ltr rtl mirror inside calls by simp
qed

theorem compact_packing_witness:
  "regions_inside (render_compact_layout plain_env plain_impl paused_torrent ltr_widget row_area {}) \<and>
   icon_area (render_compact_layout plain_env plain_impl paused_torrent ltr_widget row_area {}) =
     \<lparr>rect_x = 2, rect_y = 1, rect_width = 16, rect_height = 58\<rparr> \<and>
   name_area (render_compact_layout plain_env plain_impl paused_torrent ltr_widget row_area {}) =
     \<lparr>rect_x = 24, rect_y = 1, rect_width = 164, rect_height = 58\<rparr> \<and>
   stat_area (render_compact_layout plain_env plain_impl paused_torrent ltr_widget row_area {}) =
     \<lparr>rect_x = 194, rect_y = 1, rect_width = 48, rect_height = 58\<rparr> \<and>
   prog_area (render_compact_layout plain_env plain_impl paused_torrent ltr_widget row_area {}) =
     \<lparr>rect_x = 248, rect_y = 1, rect_width = 50, rect_height = 58\<rparr> \<and>
   regions_inside (render_compact_layout plain_env plain_impl paused_torrent rtl_widget row_area {}) \<and>
   prog_area (render_compact_layout plain_env plain_impl paused_torrent rtl_widget row_area {}) =
     \<lparr>rect_x = 2, rect_y = 1, rect_width = 50, rect_height = 58\<rparr> \<and>
   stat_area (render_compact_layout plain_env plain_impl paused_torrent rtl_widget row_area {}) =
     \<lparr>rect_x = 58, rect_y = 1, rect_width = 48, rect_height = 58\<rparr> \<and>
   name_area (render_compact_layout plain_env plain_impl paused_torrent rtl_widget row_area {}) =
     \<lparr>rect_x = 112, rect_y = 1, rect_width = 164, rect_height = 58\<rparr> \<and>
   icon_area (render_compact_layout plain_env plain_impl paused_torrent rtl_widget row_area {}) =
     \<lparr>rect_x = 282, rect_y = 1, rect_width = 16, rect_height = 58\<rparr>"
proof -
  have t: "torrent plain_impl = Some paused_torrent"
    by (simp add: plain_impl_def)
  have ltr: "render_compact_layout plain_env plain_impl paused_torrent ltr_widget row_area {} =
    \<lparr>flags_local = {INSENSITIVE}, sensitive_local = False, percentDone_local = 1 / 4,
     icon_local = ''application/octet-stream'', name_local = ''a.iso'',
     progress_color_local = RGBA ''silver'', gstr_stat_local = ''Paused'',
     text_r_local = plain_text_props\<lparr>text_text := ''Paused'', text_scale := 9 / 10\<rparr>,
     icon_r_local = \<lparr>pixbuf_gicon = ''application/octet-stream'', pixbuf_icon_size = ICON_SIZE_MENU,
       pixbuf_sensitive = True\<rparr>,
     fill_area = \<lparr>rect_x = 2, rect_y = 1, rect_width = 296, rect_height = 58\<rparr>,
     icon_area = \<lparr>rect_x = 2, rect_y = 1, rect_width = 16, rect_height = 58\<rparr>,
     prog_area = \<lparr>rect_x = 248, rect_y = 1, rect_width = 50, rect_height = 58\<rparr>,
     stat_area = \<lparr>rect_x = 194, rect_y = 1, rect_width = 48, rect_height = 58\<rparr>,
     name_area = \<lparr>rect_x = 24, rect_y = 1, rect_width = 164, rect_height = 58\<rparr>\<rparr>"
    by (simp add: render_compact_layout_def Let_def split_def get_percent_done_def MAX_macro_def
        get_icon_def tr_torrentFileCount_def tr_torrentName_def tr_torrentStatCached_def
        tr_torrentGetSeedRatio_def get_progress_bar_color_def getShortStatusString_def set_icon_def
        CompactIconSize_def CompactBarWidth_def SmallScale_def
        plain_env_def plain_impl_def plain_text_props_def paused_torrent_def paused_stat_def
        ltr_widget_def row_area_def)
       (simp add: int32_def)
  have rtl: "render_compact_layout plain_env plain_impl paused_torrent rtl_widget row_area {} =
    \<lparr>flags_local = {INSENSITIVE}, sensitive_local = False, percentDone_local = 1 / 4,
     icon_local = ''application/octet-stream'', name_local = ''a.iso'',
     progress_color_local = RGBA ''silver'', gstr_stat_local = ''Paused'',
     text_r_local = plain_text_props\<lparr>text_text := ''Paused'', text_scale := 9 / 10\<rparr>,
     icon_r_local = \<lparr>pixbuf_gicon = ''application/octet-stream'', pixbuf_icon_size = ICON_SIZE_MENU,
       pixbuf_sensitive = True\<rparr>,
     fill_area = \<lparr>rect_x = 2, rect_y = 1, rect_width = 296, rect_height = 58\<rparr>,
     icon_area = \<lparr>rect_x = 282, rect_y = 1, rect_width = 16, rect_height = 58\<rparr>,
     prog_area = \<lparr>rect_x = 2, rect_y = 1, rect_width = 50, rect_height = 58\<rparr>,
     stat_area = \<lparr>rect_x = 58, rect_y = 1, rect_width = 48, rect_height = 58\<rparr>,
     name_area = \<lparr>rect_x = 112, rect_y = 1, rect_width = 164, rect_height = 58\<rparr>\<rparr>"
    by (simp add: render_compact_layout_def Let_def split_def get_percent_done_def MAX_macro_def
        get_icon_def tr_torrentFileCount_def tr_torrentName_def tr_torrentStatCached_def
        tr_torrentGetSeedRatio_def get_progress_bar_color_def getShortStatusString_def set_icon_def
        CompactIconSize_def CompactBarWidth_def SmallScale_def
        plain_env_def plain_impl_def plain_text_props_def paused_torrent_def paused_stat_def
        rtl_widget_def row_area_def)
       (simp add: int32_def)
  have pad: "GUI_PAD plain_env = 6"
    by (simp add: plain_env_def)
  have fill: "padding_inset plain_impl row_area =
      \<lparr>rect_x = 2, rect_y = 1, rect_width = 296, rect_height = 58\<rparr>"
    by (simp add: padding_inset_def plain_impl_def row_area_def)
  have range_ltr: "compact_in_range 6 (DIR_RTL \<in> get_state plain_env ltr_widget {INSENSITIVE})
      \<lparr>rect_x = 2, rect_y = 1, rect_width = 296, rect_height = 58\<rparr> 16 48"
    by (simp add: compact_in_range_def rect_range_def int_range_def plain_env_def ltr_widget_def)
  have range_rtl: "compact_in_range 6 (DIR_RTL \<in> get_state plain_env rtl_widget {INSENSITIVE})
      \<lparr>rect_x = 2, rect_y = 1, rect_width = 296, rect_height = 58\<rparr> 16 48"
    by (simp add: compact_in_range_def rect_range_def int_range_def plain_env_def rtl_widget_def)
  have in_ltr: "compact_in_range (GUI_PAD plain_env)
      (DIR_RTL \<in> get_state plain_env ltr_widget
        (flags_local (render_compact_layout plain_env plain_impl paused_torrent ltr_widget row_area {})))
      (padding_inset plain_impl row_area)
      (rect_width (icon_area (render_compact_layout plain_env plain_impl paused_torrent ltr_widget row_area {})))
      (rect_width (stat_area (render_compact_layout plain_env plain_impl paused_torrent ltr_widget row_area {})))"
    using range_ltr by (simp add: ltr pad fill)
  have in_rtl: "compact_in_range (GUI_PAD plain_env)
      (DIR_RTL \<in> get_state plain_env rtl_widget
        (flags_local (render_compact_layout plain_env plain_impl paused_torrent rtl_widget row_area {})))
      (padding_inset plain_impl row_area)
      (rect_width (icon_area (render_compact_layout plain_env plain_impl paused_torrent rtl_widget row_area {})))
      (rect_width (stat_area (render_compact_layout plain_env plain_impl paused_torrent rtl_widget row_area {})))"
    using range_rtl by (simp add: rtl pad fill)
  show ?thesis
    using compact_packing [OF t refl in_ltr, of "SnapshotPtr 0"]
      compact_packing [OF t refl in_rtl, of "SnapshotPtr 0"] pad
    by (simp add: ltr rtl regions_inside_def rect_inside_def)
qed

text \<open>
  Claim C3, as stated, fails for a background area that is too narrow: in a row 40 wide
  the progress bar, 50 wide and flush with the right edge of the fill area, starts left
  of the fill area.
\<close>

theorem compact_packing_counterexample:
  "\<not> regions_inside (render_compact_layout plain_env plain_impl paused_torrent ltr_widget narrow_area {})"
  by (simp add: regions_inside_def rect_inside_def render_compact_layout_def Let_def split_def
      plain_env_def plain_impl_def ltr_widget_def narrow_area_def CompactBarWidth_def)
     (simp add: int32_def)

subsection \<open>The data given to the renderer stays as it is\<close>

lemma get_size_compact_frame:
  "get_size_compact e impl widget = Inr (impl', w, h) \<Longrightarrow> supplied_data impl' = supplied_data impl"
  by (auto simp: get_size_compact_def supplied_data_def Let_def split: option.splits)

lemma get_size_full_frame:
  "get_size_full e impl widget = Inr (impl', w, h) \<Longrightarrow> supplied_data impl' = supplied_data impl"
  by (auto simp: get_size_full_def supplied_data_def Let_def split: option.splits sum.splits)

lemma render_compact_frame:
  "render_compact e impl snapshot widget background_area flags = Inr (impl', calls) \<Longrightarrow>
   supplied_data impl' = supplied_data impl"
  by (auto simp: render_compact_def supplied_data_def Let_def split: option.splits)

lemma render_full_frame:
  "render_full e impl snapshot widget background_area flags = Inr (impl', calls) \<Longrightarrow>
   supplied_data impl' = supplied_data impl"
  by (auto simp: render_full_def supplied_data_def Let_def split_def split: option.splits sum.splits)

text \<open>
  Claim C5. The operations leave the statistics snapshot and the speeds they are given as
  they are. The five string builders (\<^verbatim>\<open>getProgressString\<close>, \<^verbatim>\<open>getShortTransferString\<close>,
  \<^verbatim>\<open>getShortStatusString\<close>, \<^verbatim>\<open>getActivityString\<close>, \<^verbatim>\<open>getStatusString\<close>) take the snapshot
  through a pointer to const and the speeds by value, write nothing but their result, and
  are functions of these arguments here. The four operations on the renderer
  (\<^verbatim>\<open>get_size_compact\<close>, \<^verbatim>\<open>get_size_full\<close>, \<^verbatim>\<open>render_compact\<close>, \<^verbatim>\<open>render_full\<close>) do write the
  properties of the child renderers; the state they return has the torrent, with its
  snapshot, and both speeds unchanged.
\<close>

theorem read_only:
  "(get_size_compact e impl widget = Inr (impl', w, h) \<longrightarrow> supplied_data impl' = supplied_data impl)
   \<and> (get_size_full e impl widget = Inr (impl', w, h) \<longrightarrow> supplied_data impl' = supplied_data impl)
   \<and> (render_compact e impl snapshot widget background_area flags = Inr (impl', calls) \<longrightarrow>
        supplied_data impl' = supplied_data impl)
   \<and> (render_full e impl snapshot widget background_area flags = Inr (impl', calls) \<longrightarrow>
        supplied_data impl' = supplied_data impl)"
  by (intro conjI impI)
     (erule get_size_compact_frame get_size_full_frame render_compact_frame render_full_frame)+

theorem read_only_witness:
  "map_sum id (\<lambda>r. supplied_data (fst r)) (get_size_compact plain_env plain_impl ltr_widget) =
     Inr (Some paused_torrent, 0, 0) \<and>
   map_sum id (\<lambda>r. supplied_data (fst r)) (get_size_full plain_env plain_impl ltr_widget) =
     Inr (Some paused_torrent, 0, 0) \<and>
   map_sum id (\<lambda>r. supplied_data (fst r)) (render_compact plain_env plain_impl (SnapshotPtr 0) ltr_widget row_area {}) =
     Inr (Some paused_torrent, 0, 0) \<and>
   map_sum id (\<lambda>r. supplied_data (fst r)) (render_full plain_env plain_impl (SnapshotPtr 0) ltr_widget row_area {}) =
     Inr (Some paused_torrent, 0, 0)"
proof -
  have t: "torrent plain_impl = Some paused_torrent"
    by (simp add: plain_impl_def)
  have d: "supplied_data plain_impl = (Some paused_torrent, 0, 0)"
    by (simp add: supplied_data_def plain_impl_def)
  obtain i1 w1 h1 where r1: "get_size_compact plain_env plain_impl ltr_widget = Inr (i1, w1, h1)"
    by (simp add: get_size_compact_def t Let_def)
  obtain i2 w2 h2 where r2: "get_size_full plain_env plain_impl ltr_widget = Inr (i2, w2, h2)"
    by (simp add: get_size_full_def t Let_def paused_status)
  obtain i3 c3 where r3:
    "render_compact plain_env plain_impl (SnapshotPtr 0) ltr_widget row_area {} = Inr (i3, c3)"
    by (simp add: render_compact_def t Let_def)
  obtain i4 c4 where r4:
    "render_full plain_env plain_impl (SnapshotPtr 0) ltr_widget row_area {} = Inr (i4, c4)"
    by (simp add: render_full_def t Let_def split_def paused_status)
  show ?thesis
    using read_only [of plain_env plain_impl ltr_widget i1 w1 h1 "SnapshotPtr 0" row_area "{}" c3]
      read_only [of plain_env plain_impl ltr_widget i2 w2 h2 "SnapshotPtr 0" row_area "{}" c3]
      read_only [of plain_env plain_impl ltr_widget i3 w1 h1 "SnapshotPtr 0" row_area "{}" c3]
      read_only [of plain_env plain_impl ltr_widget i4 w1 h1 "SnapshotPtr 0" row_area "{}" c4]
    by (simp add: r1 r2 r3 r4 d)
qed

end
